theory Spec2Isabelle
  imports Complex_Main
begin

section \<open>JavaScript values and string primitives\<close>

text \<open>
  The monitoring routes of \<^verbatim>\<open>server/zabbix-api.ts\<close> work on loosely typed JSON records.
  A property of such a record is absent, null, a string or a number.  Strings are modelled
  as ASCII character lists; numbers carried inside JSON are integers.
\<close>

datatype jsval = JUndefined | JNull | JStr string | JNum int

text \<open>
  The result of \<^verbatim>\<open>parseFloat\<close>.  \<open>Num q\<close> stands for the binary64 number nearest to the
  rational \<open>q\<close>; the rational itself is kept exact.
\<close>

datatype number = NaN | Num rat | PosInfinity | NegInfinity

definition isWhiteSpace :: "char \<Rightarrow> bool" where
  "isWhiteSpace c = (let n = (of_char c :: nat) in (9 \<le> n \<and> n \<le> 13) \<or> n = 32)"

definition isDigit :: "char \<Rightarrow> bool" where
  "isDigit c = (let n = (of_char c :: nat) in 48 \<le> n \<and> n \<le> 57)"

definition digitVal :: "char \<Rightarrow> nat" where
  "digitVal c = (of_char c :: nat) - 48"

text \<open>An upper-case ASCII letter becomes lower case by setting bit 5 (adding 32).\<close>

fun toLowerCaseChar :: "char \<Rightarrow> char" where
  "toLowerCaseChar (Char b0 b1 b2 b3 b4 b5 b6 b7) =
     (let n = (of_char (Char b0 b1 b2 b3 b4 b5 b6 b7) :: nat)
      in if 65 \<le> n \<and> n \<le> 90 then Char b0 b1 b2 b3 b4 True b6 b7
         else Char b0 b1 b2 b3 b4 b5 b6 b7)"

definition toLowerCase :: "string \<Rightarrow> string" where
  "toLowerCase s = map toLowerCaseChar s"

definition trimStart :: "string \<Rightarrow> string" where
  "trimStart s = dropWhile isWhiteSpace s"

definition trim :: "string \<Rightarrow> string" where
  "trim s = rev (dropWhile isWhiteSpace (rev (dropWhile isWhiteSpace s)))"

text \<open>\<^verbatim>\<open>s.startsWith(p)\<close> and \<^verbatim>\<open>s.includes(p)\<close>.\<close>

fun startsWith :: "string \<Rightarrow> string \<Rightarrow> bool" where
  "startsWith s [] = True"
| "startsWith [] (p # ps) = False"
| "startsWith (c # cs) (p # ps) = (c = p \<and> startsWith cs ps)"

fun str_includes :: "string \<Rightarrow> string \<Rightarrow> bool" where
  "str_includes [] p = (p = [])"
| "str_includes (c # cs) p = (startsWith (c # cs) p \<or> str_includes cs p)"

text \<open>\<^verbatim>\<open>String(v)\<close> for the values of the model.\<close>

fun showNat :: "nat \<Rightarrow> string" where
  "showNat n = (if n < 10 then [char_of (48 + n)] else showNat (n div 10) @ [char_of (48 + n mod 10)])"

definition showInt :: "int \<Rightarrow> string" where
  "showInt i = (if i < 0 then CHR ''-'' # showNat (nat (- i)) else showNat (nat i))"

fun String_of :: "jsval \<Rightarrow> string" where
  "String_of JUndefined = ''undefined''"
| "String_of JNull = ''null''"
| "String_of (JStr s) = s"
| "String_of (JNum n) = showInt n"

text \<open>Truthiness, as used by \<^verbatim>\<open>||\<close>, \<^verbatim>\<open>&&\<close> and \<^verbatim>\<open>?:\<close>.\<close>

fun truthy :: "jsval \<Rightarrow> bool" where
  "truthy JUndefined = False"
| "truthy JNull = False"
| "truthy (JStr s) = (s \<noteq> [])"
| "truthy (JNum n) = (n \<noteq> 0)"

text \<open>\<^verbatim>\<open>v || d\<close> for a string default \<open>d\<close>.\<close>

definition orElse :: "jsval \<Rightarrow> string \<Rightarrow> jsval" where
  "orElse v d = (if truthy v then v else JStr d)"

subsection \<open>parseInt\<close>

text \<open>
  \<^verbatim>\<open>parseInt(v)\<close> without a radix: leading white space is skipped, a sign is read, a
  \<^verbatim>\<open>0x\<close> prefix selects base 16, and the longest prefix of digits is converted.  \<open>None\<close> is
  \<^verbatim>\<open>NaN\<close>.
\<close>

definition isHexDigit :: "char \<Rightarrow> bool" where
  "isHexDigit c = (let n = (of_char c :: nat) in
     (48 \<le> n \<and> n \<le> 57) \<or> (65 \<le> n \<and> n \<le> 70) \<or> (97 \<le> n \<and> n \<le> 102))"

definition hexVal :: "char \<Rightarrow> nat" where
  "hexVal c = (let n = (of_char c :: nat) in
     if n \<le> 57 then n - 48 else if n \<le> 70 then n - 55 else n - 87)"

definition digitsValue :: "string \<Rightarrow> nat" where
  "digitsValue ds = foldl (\<lambda>acc c. acc * 10 + digitVal c) 0 ds"

definition hexDigitsValue :: "string \<Rightarrow> nat" where
  "hexDigitsValue ds = foldl (\<lambda>acc c. acc * 16 + hexVal c) 0 ds"

definition stripSign :: "string \<Rightarrow> bool \<times> string" where
  "stripSign t = (case t of [] \<Rightarrow> (False, [])
     | c # r \<Rightarrow> if c = CHR ''-'' then (True, r) else if c = CHR ''+'' then (False, r) else (False, t))"

definition parseIntStr :: "string \<Rightarrow> int option" where
  "parseIntStr s =
     (let (neg, u) = stripSign (trimStart s);
          hex = (startsWith u ''0x'' \<or> startsWith u ''0X'');
          ds = (if hex then takeWhile isHexDigit (drop 2 u) else takeWhile isDigit u)
      in if ds = [] then None
         else let m = int (if hex then hexDigitsValue ds else digitsValue ds)
              in Some (if neg then - m else m))"

definition parseInt :: "jsval \<Rightarrow> int option" where
  "parseInt v = parseIntStr (String_of v)"

subsection \<open>parseFloat\<close>

text \<open>
  \<^verbatim>\<open>parseFloat(s)\<close>: leading white space is skipped and the longest prefix that is a
  decimal literal (sign, \<^verbatim>\<open>Infinity\<close>, digits, fraction, exponent) is converted; \<open>NaN\<close> when
  there is no such prefix.
\<close>

definition pow10 :: "int \<Rightarrow> rat" where
  "pow10 e = (if 0 \<le> e then 10 ^ nat e else 1 / 10 ^ nat (- e))"

definition parseExponent :: "string \<Rightarrow> int" where
  "parseExponent r = (case r of [] \<Rightarrow> 0
     | c # r' \<Rightarrow>
         if c = CHR ''e'' \<or> c = CHR ''E'' then
           (let (neg, r'') = stripSign r'; ds = takeWhile isDigit r''
            in if ds = [] then 0 else if neg then - int (digitsValue ds) else int (digitsValue ds))
         else 0)"

definition parseFloatStr :: "string \<Rightarrow> number" where
  "parseFloatStr s =
     (let (neg, u) = stripSign (trimStart s)
      in if startsWith u ''Infinity'' then (if neg then NegInfinity else PosInfinity)
         else
           let ip = takeWhile isDigit u;
               r1 = dropWhile isDigit u;
               (fp, r2) = (case r1 of [] \<Rightarrow> ([], r1)
                  | c # r \<Rightarrow> if c = CHR ''.'' then (takeWhile isDigit r, dropWhile isDigit r)
                             else ([], r1))
           in if ip = [] \<and> fp = [] then NaN
              else
                let q = of_nat (digitsValue (ip @ fp)) * pow10 (parseExponent r2 - int (length fp))
                in Num (if neg then - q else q))"

definition parseFloat :: "jsval \<Rightarrow> number" where
  "parseFloat v = parseFloatStr (String_of v)"

definition isNaN :: "number \<Rightarrow> bool" where
  "isNaN x = (x = NaN)"

text \<open>
  \<^verbatim>\<open>x > 0\<close> on a parsed number.  The least positive binary64 number is \<open>1 / 2 ^ 1074\<close>;
  a positive literal that is not above half of it is read as zero, so the comparison
  holds exactly above \<open>1 / 2 ^ 1075\<close>.
\<close>

fun greaterThanZero :: "number \<Rightarrow> bool" where
  "greaterThanZero NaN = False"
| "greaterThanZero (Num q) = (1 / 2 ^ 1075 < q)"
| "greaterThanZero PosInfinity = True"
| "greaterThanZero NegInfinity = False"

section \<open>Records of the monitoring server\<close>

text \<open>
  An item of \<^verbatim>\<open>item.get\<close>.  \<open>key\<close> is the property \<^verbatim>\<open>key_\<close>.  The server sends
  \<^verbatim>\<open>key_\<close> and \<^verbatim>\<open>name\<close> as strings (an empty string stands for an absent one: both are
  falsy); the other properties are read through JavaScript coercions and stay untyped.
\<close>

record item =
  key :: string
  name :: string
  lastvalue :: jsval
  status :: jsval
  lastclock :: jsval

record interface =
  ip :: jsval
  available :: jsval

text \<open>A host of \<^verbatim>\<open>host.get\<close>; an absent interface array behaves as the empty one.\<close>

record host =
  hostid :: string
  interfaces :: "interface list"

section \<open>Direct probe\<close>

text \<open>
  \<^verbatim>\<open>execAsync\<close> either resolves with the standard output of the command, or rejects
  (the command exited with a non-zero status, or could not be started at all).
\<close>

datatype exec_result = Resolved string | Rejected string

datatype js_exception = RangeError | ExecError string

definition pingCommand :: "bool \<Rightarrow> string \<Rightarrow> string" where
  "pingCommand isWindows ipAddress =
     (if isWindows then ''ping -n 1 -w 1000 '' @ ipAddress else ''ping -c 1 -W 1 '' @ ipAddress)"

text \<open>
  \<^verbatim>\<open>pingHost\<close>.  The whole body is inside \<^verbatim>\<open>try\<close>, and the \<^verbatim>\<open>catch\<close> returns false;
  \<open>Inl\<close> would be an exception leaving the function.
\<close>

definition pingHost :: "bool \<Rightarrow> (string \<Rightarrow> exec_result) \<Rightarrow> string \<Rightarrow> js_exception + bool" where
  "pingHost isWindows execAsync ipAddress =
     (case execAsync (pingCommand isWindows ipAddress) of
        Rejected err \<Rightarrow> Inr False
      | Resolved stdout \<Rightarrow>
          if isWindows
          then Inr (str_includes stdout ''Reply from'' \<or> str_includes stdout ''bytes='')
          else Inr (str_includes stdout ''1 received'' \<or> str_includes stdout ''1 packets received''))"

definition firstInterfaceIp :: "host \<Rightarrow> jsval" where
  "firstInterfaceIp h = (case interfaces h of [] \<Rightarrow> JUndefined | iface # rest \<Rightarrow> ip iface)"

text \<open>The assignment of \<^verbatim>\<open>directPingStatus\<close>, the same in both routes.\<close>

definition directPing :: "bool \<Rightarrow> (string \<Rightarrow> exec_result) \<Rightarrow> host \<Rightarrow> string" where
  "directPing isWindows execAsync h =
     (let ipAddress = firstInterfaceIp h
      in if truthy ipAddress \<and> ipAddress \<noteq> JStr ''N/A'' then
           (case pingHost isWindows execAsync (String_of ipAddress) of
              Inr pingResult \<Rightarrow> (if pingResult then ''responding'' else ''no response'')
            | Inl err \<Rightarrow> ''error'')
         else ''no ip'')"

section \<open>Interface availability scan\<close>

text \<open>
  The state of the loop is the pair \<^verbatim>\<open>(hasAvailableInterface, hasUnavailableInterface)\<close>.
  The loop of \<^verbatim>\<open>/api/zabbix/hosts\<close> visits every interface.
\<close>

fun scanInterfaces :: "interface list \<Rightarrow> bool \<times> bool \<Rightarrow> bool \<times> bool" where
  "scanInterfaces [] st = st"
| "scanInterfaces (iface # rest) (hasAvailable, hasUnavailable) =
     (let val = parseInt (orElse (available iface) ''0'')
      in if val = Some 1 then scanInterfaces rest (True, hasUnavailable)
         else if val = Some 2 then scanInterfaces rest (hasAvailable, True)
         else scanInterfaces rest (hasAvailable, hasUnavailable))"

text \<open>The loop of \<^verbatim>\<open>/api/zabbix/metrics\<close> leaves at the first available interface.\<close>

fun scanInterfacesBreak :: "interface list \<Rightarrow> bool \<times> bool \<Rightarrow> bool \<times> bool" where
  "scanInterfacesBreak [] st = st"
| "scanInterfacesBreak (iface # rest) (hasAvailable, hasUnavailable) =
     (let ifaceAvailable = parseInt (orElse (available iface) ''0'')
      in if ifaceAvailable = Some 1 then (True, hasUnavailable)
         else if ifaceAvailable = Some 2 then scanInterfacesBreak rest (hasAvailable, True)
         else scanInterfacesBreak rest (hasAvailable, hasUnavailable))"

section \<open>Availability score\<close>

text \<open>
  The score is accumulated in four steps and then compared with zero; the code is the same
  in both routes (\<^verbatim>\<open>availabilityScore\<close> and \<^verbatim>\<open>metricScore\<close>).
\<close>

definition availabilityScore :: "string \<Rightarrow> string \<Rightarrow> string \<Rightarrow> bool \<Rightarrow> bool \<Rightarrow> int" where
  "availabilityScore directPingStatus icmpStatus agentStatus hasAvailableInterface hasUnavailableInterface =
     (let score0 = 0;
          score1 = (if directPingStatus = ''responding'' then score0 + 3
                    else if directPingStatus = ''no response'' then score0 - 3 else score0);
          score2 = (if icmpStatus = ''responding'' then score1 + 2
                    else if icmpStatus = ''no response'' then score1 - 2 else score1);
          score3 = (if agentStatus = ''available'' then score2 + 2
                    else if agentStatus = ''unavailable'' then score2 - 2 else score2);
          score4 = (if hasAvailableInterface then score3 + 1
                    else if hasUnavailableInterface then score3 - 1 else score3)
      in score4)"

definition statusOfScore :: "int \<Rightarrow> string" where
  "statusOfScore score =
     (if score > 0 then ''available'' else if score < 0 then ''unavailable'' else ''unknown'')"

section \<open>Item matching and signal resolution in /api/zabbix/hosts\<close>

definition isEnabled :: "item \<Rightarrow> bool" where
  "isEnabled i = (status i = JStr ''0'' \<or> status i = JNum 0)"

text \<open>The predicate given to \<^verbatim>\<open>items.find\<close> for the ICMP item.\<close>

definition icmpMatch :: "item \<Rightarrow> bool" where
  "icmpMatch i =
     (let k = toLowerCase (key i); n = toLowerCase (name i)
      in isEnabled i \<and>
         (k = ''icmpping'' \<or>
          k = ''icmpping[]'' \<or>
          startsWith k ''icmpping['' \<or>
          str_includes k ''icmp'' \<or>
          str_includes n ''icmp ping'' \<or>
          str_includes n ''ping response'' \<or>
          str_includes n ''icmp response''))"

text \<open>The predicate given to \<^verbatim>\<open>items.find\<close> for the agent item.\<close>

definition agentMatch :: "item \<Rightarrow> bool" where
  "agentMatch i =
     (let k = toLowerCase (key i); n = toLowerCase (name i)
      in isEnabled i \<and>
         (k = ''agent.ping'' \<or>
          k = ''agent.ping[]'' \<or>
          startsWith k ''agent.ping['' \<or>
          str_includes k ''agent.ping'' \<or>
          str_includes n ''agent ping'' \<or>
          str_includes n ''zabbix agent ping'' \<or>
          str_includes n ''agent availability''))"

text \<open>\<^verbatim>\<open>v !== undefined && v !== null && v !== ''\<close>.\<close>

definition hasValue :: "jsval \<Rightarrow> bool" where
  "hasValue v = (v \<noteq> JUndefined \<and> v \<noteq> JNull \<and> v \<noteq> JStr [])"

text \<open>
  The coercion of a present last value, written four times in the source (ICMP and agent,
  in each route) with the two result words as the only difference.
\<close>

definition icmpValueStatus :: "jsval \<Rightarrow> string" where
  "icmpValueStatus v =
     (let strValue = trim (String_of v); numValue = parseFloatStr strValue
      in if \<not> isNaN numValue then (if greaterThanZero numValue then ''responding'' else ''no response'')
         else if strValue = ''1'' \<or> toLowerCase strValue = ''up'' then ''responding''
         else if strValue = ''0'' \<or> toLowerCase strValue = ''down'' then ''no response''
         else ''unknown'')"

definition agentValueStatus :: "jsval \<Rightarrow> string" where
  "agentValueStatus v =
     (let strValue = trim (String_of v); agentValue = parseFloatStr strValue
      in if \<not> isNaN agentValue then (if greaterThanZero agentValue then ''available'' else ''unavailable'')
         else if strValue = ''1'' \<or> toLowerCase strValue = ''up'' then ''available''
         else if strValue = ''0'' \<or> toLowerCase strValue = ''down'' then ''unavailable''
         else ''unknown'')"

text \<open>
  The log entry written for a found item contains
  \<^verbatim>\<open>new Date(parseInt(item.lastclock) * 1000).toISOString()\<close>, which throws a
  \<^verbatim>\<open>RangeError\<close> unless the clock parses to a time inside the range of \<^verbatim>\<open>Date\<close>.
\<close>

definition lastclockTime :: "jsval \<Rightarrow> js_exception + unit" where
  "lastclockTime clock =
     (case parseInt clock of
        None \<Rightarrow> Inl RangeError
      | Some t \<Rightarrow> if \<bar>t * 1000\<bar> \<le> 8640000000000000 then Inr () else Inl RangeError)"

text \<open>\<^verbatim>\<open>ageSeconds\<close>; \<open>None\<close> is \<^verbatim>\<open>NaN\<close>.\<close>

definition ageSeconds :: "int \<Rightarrow> jsval \<Rightarrow> int option" where
  "ageSeconds currentTime clock =
     (case parseInt (orElse clock ''0'') of None \<Rightarrow> None
      | Some lastUpdate \<Rightarrow> Some (currentTime - lastUpdate))"

definition isRecent :: "int \<Rightarrow> jsval \<Rightarrow> bool" where
  "isRecent currentTime clock =
     (case ageSeconds currentTime clock of None \<Rightarrow> False | Some age \<Rightarrow> age < 600)"

definition icmpStatusOf :: "int \<Rightarrow> item list \<Rightarrow> js_exception + string" where
  "icmpStatusOf currentTime items =
     (case find icmpMatch items of
        None \<Rightarrow> Inr ''not configured''
      | Some icmpItem \<Rightarrow>
          (case lastclockTime (lastclock icmpItem) of
             Inl err \<Rightarrow> Inl err
           | Inr logged \<Rightarrow>
               if hasValue (lastvalue icmpItem) then Inr (icmpValueStatus (lastvalue icmpItem))
               else Inr (if isRecent currentTime (lastclock icmpItem) then ''no data'' else ''stale data'')))"

definition agentStatusOf :: "int \<Rightarrow> item list \<Rightarrow> js_exception + string" where
  "agentStatusOf currentTime items =
     (case find agentMatch items of
        None \<Rightarrow> Inr ''not configured''
      | Some agentItem \<Rightarrow>
          (case lastclockTime (lastclock agentItem) of
             Inl err \<Rightarrow> Inl err
           | Inr logged \<Rightarrow>
               if hasValue (lastvalue agentItem) then Inr (agentValueStatus (lastvalue agentItem))
               else Inr (if isRecent currentTime (lastclock agentItem) then ''no data'' else ''stale data'')))"

text \<open>The part of the object returned for a host that the reconciliation produces.\<close>

record enriched =
  availabilityStatus :: string
  icmpStatus :: string
  agentStatus :: string
  directPingStatus :: string

text \<open>
  The callback mapped over the hosts.  \<open>itemsResult\<close> is the outcome of the \<^verbatim>\<open>item.get\<close>
  request of this host: a failure is caught and leaves the item list empty.
\<close>

definition fetchedItems :: "string + item list \<Rightarrow> item list" where
  "fetchedItems itemsResult = (case itemsResult of Inl err \<Rightarrow> [] | Inr fetched \<Rightarrow> fetched)"

definition enrichHost ::
  "bool \<Rightarrow> (string \<Rightarrow> exec_result) \<Rightarrow> int \<Rightarrow> host \<Rightarrow> string + item list \<Rightarrow> js_exception + enriched" where
  "enrichHost isWindows execAsync currentTime h itemsResult =
     (let direct = directPing isWindows execAsync h;
          (hasAvailableInterface, hasUnavailableInterface) = scanInterfaces (interfaces h) (False, False);
          items = fetchedItems itemsResult
      in case icmpStatusOf currentTime items of
           Inl err \<Rightarrow> Inl err
         | Inr icmp \<Rightarrow>
             (case agentStatusOf currentTime items of
                Inl err \<Rightarrow> Inl err
              | Inr agent \<Rightarrow>
                  Inr \<lparr> availabilityStatus =
                          statusOfScore (availabilityScore direct icmp agent
                            hasAvailableInterface hasUnavailableInterface),
                        icmpStatus = icmp,
                        agentStatus = agent,
                        directPingStatus = direct \<rparr>))"

text \<open>
  \<^verbatim>\<open>Promise.all\<close> over the hosts: the route answers with the list of enriched hosts, or
  fails as a whole when one callback throws.
\<close>

fun enrichAll ::
  "bool \<Rightarrow> (string \<Rightarrow> exec_result) \<Rightarrow> int \<Rightarrow> (host \<times> (string + item list)) list \<Rightarrow> js_exception + enriched list" where
  "enrichAll isWindows execAsync currentTime [] = Inr []"
| "enrichAll isWindows execAsync currentTime ((h, itemsResult) # rest) =
     (case enrichHost isWindows execAsync currentTime h itemsResult of
        Inl err \<Rightarrow> Inl err
      | Inr e \<Rightarrow>
          (case enrichAll isWindows execAsync currentTime rest of
             Inl err \<Rightarrow> Inl err
           | Inr es \<Rightarrow> Inr (e # es)))"

section \<open>Signals and numeric fields in /api/zabbix/metrics\<close>

text \<open>\<^verbatim>\<open>parseItemValue\<close>.\<close>

definition parseItemValue :: "jsval \<Rightarrow> number" where
  "parseItemValue v =
     (if v = JNull \<or> v = JUndefined \<or> v = JStr [] then Num 0
      else let parsed = parseFloat v in if isNaN parsed then Num 0 else parsed)"

text \<open>\<^verbatim>\<open>x?.lastvalue\<close> on the result of \<^verbatim>\<open>find\<close>.\<close>

definition lastvalueOf :: "item option \<Rightarrow> jsval" where
  "lastvalueOf found = (case found of None \<Rightarrow> JUndefined | Some i \<Rightarrow> lastvalue i)"

definition cpuMatch :: "item \<Rightarrow> bool" where
  "cpuMatch i = (str_includes (key i) ''cpu.util'' \<or> str_includes (key i) ''system.cpu'' \<or>
                 str_includes (toLowerCase (name i)) ''cpu'')"

definition memMatch :: "item \<Rightarrow> bool" where
  "memMatch i = (str_includes (key i) ''memory.util'' \<or> str_includes (key i) ''vm.memory'' \<or>
                 str_includes (toLowerCase (name i)) ''memory utilization'')"

definition diskMatch :: "item \<Rightarrow> bool" where
  "diskMatch i = (str_includes (key i) ''fs.pused'' \<or> str_includes (key i) ''disk'' \<or>
                  str_includes (toLowerCase (name i)) ''disk space'')"

definition netInMatch :: "item \<Rightarrow> bool" where
  "netInMatch i = (str_includes (key i) ''net.if.in'' \<or> str_includes (toLowerCase (name i)) ''incoming'')"

definition netOutMatch :: "item \<Rightarrow> bool" where
  "netOutMatch i = (str_includes (key i) ''net.if.out'' \<or> str_includes (toLowerCase (name i)) ''outgoing'')"

definition icmpPingMatch :: "item \<Rightarrow> bool" where
  "icmpPingMatch i =
     ((key i \<noteq> [] \<and>
        (toLowerCase (key i) = ''icmpping'' \<or>
         toLowerCase (key i) = ''icmpping[]'' \<or>
         startsWith (toLowerCase (key i)) ''icmpping['' \<or>
         str_includes (toLowerCase (key i)) ''icmp'')) \<or>
      (name i \<noteq> [] \<and>
        (str_includes (toLowerCase (name i)) ''icmp ping'' \<or>
         str_includes (toLowerCase (name i)) ''ping response'')))"

definition agentPingMatch :: "item \<Rightarrow> bool" where
  "agentPingMatch i =
     (key i = ''agent.ping'' \<or>
      key i = ''agent.ping[]'' \<or>
      (key i \<noteq> [] \<and> startsWith (toLowerCase (key i)) ''agent.ping['') \<or>
      (name i \<noteq> [] \<and> str_includes (toLowerCase (name i)) ''agent ping''))"

definition metricIcmpStatus :: "item list \<Rightarrow> string" where
  "metricIcmpStatus allItems =
     (case find icmpPingMatch allItems of
        None \<Rightarrow> ''not configured''
      | Some icmpPingItem \<Rightarrow>
          if hasValue (lastvalue icmpPingItem) then icmpValueStatus (lastvalue icmpPingItem)
          else ''not configured'')"

definition metricAgentStatus :: "item list \<Rightarrow> string" where
  "metricAgentStatus allItems =
     (case find agentPingMatch allItems of
        None \<Rightarrow> ''not configured''
      | Some agentPingItem \<Rightarrow>
          if hasValue (lastvalue agentPingItem) then agentValueStatus (lastvalue agentPingItem)
          else ''not configured'')"

text \<open>The entry pushed for a host, without the texts copied from the host record and the uptime.\<close>

record metrics =
  cpuUtilization :: number
  memoryUtilization :: number
  diskUsage :: number
  networkIn :: number
  networkOut :: number
  metricStatus :: string
  m_icmpStatus :: string
  agentCheckStatus :: string
  m_directPingStatus :: string

definition hostMetrics :: "bool \<Rightarrow> (string \<Rightarrow> exec_result) \<Rightarrow> host \<Rightarrow> item list \<Rightarrow> metrics" where
  "hostMetrics isWindows execAsync h allItems =
     (let direct = directPing isWindows execAsync h;
          icmp = metricIcmpStatus allItems;
          agent = metricAgentStatus allItems;
          (hasAvailableInterface, hasUnavailableInterface) = scanInterfacesBreak (interfaces h) (False, False)
      in \<lparr> cpuUtilization = parseItemValue (lastvalueOf (find cpuMatch allItems)),
           memoryUtilization = parseItemValue (lastvalueOf (find memMatch allItems)),
           diskUsage = parseItemValue (lastvalueOf (find diskMatch allItems)),
           networkIn = parseItemValue (lastvalueOf (find netInMatch allItems)),
           networkOut = parseItemValue (lastvalueOf (find netOutMatch allItems)),
           metricStatus = statusOfScore (availabilityScore direct icmp agent
                            hasAvailableInterface hasUnavailableInterface),
           m_icmpStatus = icmp,
           agentCheckStatus = agent,
           m_directPingStatus = direct \<rparr>)"

section \<open>The RPC client\<close>

text \<open>
  \<^verbatim>\<open>zabbixApiRequest\<close> after \<^verbatim>\<open>fetch\<close> has delivered a response.  The body is read only
  from a response whose status is in the range 200 to 299, and it is a JSON-RPC envelope:
  an optional error object and a result.  The two \<^verbatim>\<open>throw\<close> statements are the two
  constructors of the failure; each carries the message of the \<^verbatim>\<open>Error\<close>.
\<close>

record rpc_error =
  error_data :: jsval
  error_message :: jsval

record 'r envelope =
  envelope_error :: "rpc_error option"
  envelope_result :: 'r

record 'r response =
  http_status :: nat
  statusText :: string
  json :: "'r envelope"

datatype rpc_failure = TransportError string | ProtocolError string

definition response_ok :: "'r response \<Rightarrow> bool" where
  "response_ok r = (200 \<le> http_status r \<and> http_status r \<le> 299)"

definition zabbixApiRequest :: "'r response \<Rightarrow> rpc_failure + 'r" where
  "zabbixApiRequest r =
     (if \<not> response_ok r then Inl (TransportError (''Zabbix API request failed: '' @ statusText r))
      else case envelope_error (json r) of
             Some e \<Rightarrow>
               Inl (ProtocolError (''Zabbix API error: '' @
                      String_of (if truthy (error_data e) then error_data e else error_message e)))
           | None \<Rightarrow> Inr (envelope_result (json r)))"

section \<open>Problems and their hosts\<close>

record problem =
  eventid :: string
  objectid :: string
  problem_name :: string
  severity :: jsval
  acknowledged :: string
  clock :: string
  r_eventid :: jsval

record trigger_host =
  host_host :: string
  host_name :: string

record trigger =
  triggerid :: string
  hosts :: "trigger_host list"

record host_info =
  info_hostname :: string
  info_host :: string

record formatted_problem =
  out_eventid :: string
  out_name :: string
  out_severity :: "int option"
  out_hostname :: string
  out_host :: string
  out_acknowledged :: string
  out_clock :: string
  out_resolved :: bool

text \<open>\<^verbatim>\<open>s || 'Unknown'\<close> on a string.\<close>

definition orUnknown :: "string \<Rightarrow> string" where
  "orUnknown s = (if s \<noteq> [] then s else ''Unknown'')"

text \<open>One step of the \<^verbatim>\<open>forEach\<close> that fills \<^verbatim>\<open>triggerHostMap\<close>.\<close>

definition addTrigger :: "(string \<rightharpoonup> host_info) \<Rightarrow> trigger \<Rightarrow> (string \<rightharpoonup> host_info)" where
  "addTrigger m t =
     (case hosts t of
        [] \<Rightarrow> m
      | h # rest \<Rightarrow>
          m(triggerid t \<mapsto> \<lparr> info_hostname = orUnknown (host_name h),
                              info_host = orUnknown (host_host h) \<rparr>))"

definition buildTriggerHostMap :: "trigger list \<Rightarrow> (string \<rightharpoonup> host_info)" where
  "buildTriggerHostMap triggers = foldl addTrigger Map.empty triggers"

definition formatProblem :: "(string \<rightharpoonup> host_info) \<Rightarrow> problem \<Rightarrow> formatted_problem" where
  "formatProblem triggerHostMap p =
     (let hostInfo = (case triggerHostMap (objectid p) of
                        Some info \<Rightarrow> info
                      | None \<Rightarrow> \<lparr> info_hostname = ''Unknown'', info_host = ''Unknown'' \<rparr>)
      in \<lparr> out_eventid = eventid p,
           out_name = problem_name p,
           out_severity = parseInt (severity p),
           out_hostname = info_hostname hostInfo,
           out_host = info_host hostInfo,
           out_acknowledged = acknowledged p,
           out_clock = clock p,
           out_resolved = truthy (r_eventid p) \<rparr>)"

text \<open>
  The route after \<^verbatim>\<open>problem.get\<close> has answered.  \<open>triggerGet\<close> is the monitoring server
  seen through \<^verbatim>\<open>zabbixApiRequest\<close>: it maps the list of trigger ids of a
  \<^verbatim>\<open>trigger.get\<close> request to the triggers or to a failure.  The second component of the
  result is the log of the \<^verbatim>\<open>trigger.get\<close> requests sent, each with its list of ids.
\<close>

definition listProblems ::
  "(string list \<Rightarrow> rpc_failure + trigger list) \<Rightarrow> problem list \<Rightarrow> formatted_problem list \<times> string list list" where
  "listProblems triggerGet problems =
     (let triggerIds = map objectid problems;
          (triggerHostMap, requests) =
            (if length triggerIds > 0 then
               (case triggerGet triggerIds of
                  Inr triggers \<Rightarrow> (buildTriggerHostMap triggers, [triggerIds])
                | Inl err \<Rightarrow> (Map.empty, [triggerIds]))
             else (Map.empty, []))
      in (map (formatProblem triggerHostMap) problems, requests))"

section \<open>Example inputs\<close>

text \<open>A Linux ping that got its reply, and a ping command that could not be started.\<close>

abbreviation pingReplied :: "string \<Rightarrow> exec_result" where
  "pingReplied \<equiv> (\<lambda>command. Resolved ''1 packets transmitted, 1 received, 0% packet loss'')"

abbreviation pingNotInstalled :: "string \<Rightarrow> exec_result" where
  "pingNotInstalled \<equiv> (\<lambda>command. Rejected ''/bin/sh: 1: ping: not found'')"

abbreviation exampleHost :: host where
  "exampleHost \<equiv> \<lparr> hostid = ''10084'',
                    interfaces = [\<lparr> ip = JStr ''10.0.0.5'', available = JStr ''2'' \<rparr>,
                                  \<lparr> ip = JStr ''10.0.0.6'', available = JStr ''1'' \<rparr>] \<rparr>"

abbreviation plainHost :: host where
  "plainHost \<equiv> \<lparr> hostid = ''10085'',
                  interfaces = [\<lparr> ip = JStr ''10.0.0.7'', available = JStr ''0'' \<rparr>] \<rparr>"

abbreviation exactKeyItem :: item where
  "exactKeyItem \<equiv> \<lparr> key = ''icmpping'', name = ''Ping check'', lastvalue = JStr ''0'',
                     status = JStr ''0'', lastclock = JStr ''1700000000'' \<rparr>"

abbreviation responseTimeItem :: item where
  "responseTimeItem \<equiv> \<lparr> key = ''net.rtt'', name = ''ICMP response time'', lastvalue = JStr ''1'',
                         status = JStr ''0'', lastclock = JStr ''1700000000'' \<rparr>"

abbreviation cpuItem :: item where
  "cpuItem \<equiv> \<lparr> key = ''system.cpu.util'', name = ''CPU utilization'', lastvalue = JStr ''37.5'',
                status = JStr ''0'', lastclock = JStr ''1700000000'' \<rparr>"

abbreviation lookupFails :: "string list \<Rightarrow> rpc_failure + trigger list" where
  "lookupFails \<equiv> (\<lambda>triggerids. Inl (TransportError ''Zabbix API request failed: Bad Gateway''))"

abbreviation diskProblem :: problem where
  "diskProblem \<equiv> \<lparr> eventid = ''501'', objectid = ''13'', problem_name = ''Disk space is low'',
                    severity = JStr ''3'', acknowledged = ''0'', clock = ''1700000000'',
                    r_eventid = JStr ''0'' \<rparr>"

abbreviation loadProblem :: problem where
  "loadProblem \<equiv> \<lparr> eventid = ''502'', objectid = ''13'', problem_name = ''Load average is high'',
                    severity = JStr ''2'', acknowledged = ''0'', clock = ''1700000050'',
                    r_eventid = JStr ''0'' \<rparr>"

abbreviation lookupAnswers :: "string list \<Rightarrow> rpc_failure + trigger list" where
  "lookupAnswers \<equiv> (\<lambda>triggerids.
     Inr [\<lparr> triggerid = ''13'',
            hosts = [\<lparr> host_host = ''web01'', host_name = ''Web server 1'' \<rparr>,
                     \<lparr> host_host = ''web02'', host_name = ''Web server 2'' \<rparr>] \<rparr>])"

section \<open>The reconciliation rule as the specification words it\<close>

text \<open>
  A signal contributes its weight when it is in its positive state, the negated weight in
  its negative state, and nothing in any other state.
\<close>

definition spec_weight :: "int \<Rightarrow> string \<Rightarrow> string \<Rightarrow> string \<Rightarrow> int" where
  "spec_weight w positive negative signal =
     (if signal = positive then w else if signal = negative then - w else 0)"

definition spec_score :: "string \<Rightarrow> string \<Rightarrow> string \<Rightarrow> string \<Rightarrow> int" where
  "spec_score direct icmp agent flag =
     spec_weight 3 ''responding'' ''no response'' direct +
     spec_weight 2 ''responding'' ''no response'' icmp +
     spec_weight 2 ''available'' ''unavailable'' agent +
     spec_weight 1 ''available'' ''unavailable'' flag"

definition spec_reconcile :: "string \<Rightarrow> string \<Rightarrow> string \<Rightarrow> string \<Rightarrow> string" where
  "spec_reconcile direct icmp agent flag =
     (if spec_score direct icmp agent flag > 0 then ''available''
      else if spec_score direct icmp agent flag < 0 then ''unavailable''
      else ''unknown'')"

text \<open>
  The InterfaceFlag signal that the two loop variables stand for: the available flag is
  tested first.
\<close>

definition interfaceFlag :: "bool \<times> bool \<Rightarrow> string" where
  "interfaceFlag st =
     (if fst st then ''available'' else if snd st then ''unavailable'' else ''unknown'')"

text \<open>The parsed availability flags of the interfaces of a host.\<close>

definition interfaceFlags :: "interface list \<Rightarrow> int option list" where
  "interfaceFlags ifaces = map (\<lambda>iface. parseInt (orElse (available iface) ''0'')) ifaces"

section \<open>Properties of the string primitives\<close>

lemma startsWith_iff: "startsWith s p \<longleftrightarrow> (\<exists>r. s = p @ r)"
  by (induction s p rule: startsWith.induct) auto

lemma str_includes_iff: "str_includes s p \<longleftrightarrow> (\<exists>pre post. s = pre @ p @ post)"
proof (induction s)
  case Nil
  then show ?case by simp
next
  case (Cons c cs)
  show ?case
  proof
    assume "str_includes (c # cs) p"
    then consider "startsWith (c # cs) p" | "str_includes cs p" by auto
    then show "\<exists>pre post. c # cs = pre @ p @ post"
    proof cases
      case 1
      then obtain r where "c # cs = p @ r" by (auto simp: startsWith_iff)
      then have "c # cs = [] @ p @ r" by simp
      then show ?thesis by blast
    next
      case 2
      then obtain pre post where "cs = pre @ p @ post" using Cons.IH by blast
      then have "c # cs = (c # pre) @ p @ post" by simp
      then show ?thesis by blast
    qed
  next
    assume "\<exists>pre post. c # cs = pre @ p @ post"
    then obtain pre post where eq: "c # cs = pre @ p @ post" by blast
    show "str_includes (c # cs) p"
    proof (cases pre)
      case Nil
      then have "startsWith (c # cs) p" using eq by (auto simp: startsWith_iff)
      then show ?thesis by simp
    next
      case (Cons a pre')
      then have "cs = pre' @ p @ post" using eq by simp
      then have "str_includes cs p" using Cons.IH by blast
      then show ?thesis by simp
    qed
  qed
qed

section \<open>The first match of a find\<close>

lemma find_first_match:
  "(\<forall>j \<in> set pre. \<not> P j) \<Longrightarrow> P i \<Longrightarrow> find P (pre @ i # post) = Some i"
  by (induction pre) auto

lemma find_Some_split:
  "find P xs = Some i \<Longrightarrow> \<exists>pre post. xs = pre @ i # post \<and> P i \<and> (\<forall>j \<in> set pre. \<not> P j)"
proof (induction xs)
  case Nil
  then show ?case by simp
next
  case (Cons x xs)
  show ?case
  proof (cases "P x")
    case True
    with Cons.prems have "x = i" by simp
    with True have "x # xs = [] @ i # xs \<and> P i \<and> (\<forall>j \<in> set []. \<not> P j)" by simp
    then show ?thesis by blast
  next
    case False
    with Cons.prems have "find P xs = Some i" by simp
    then obtain pre post where "xs = pre @ i # post" "P i" "\<forall>j \<in> set pre. \<not> P j"
      using Cons.IH by blast
    with False have "x # xs = (x # pre) @ i # post \<and> P i \<and> (\<forall>j \<in> set (x # pre). \<not> P j)"
      by simp
    then show ?thesis by blast
  qed
qed

section \<open>The score\<close>

lemma availabilityScore_sum:
  "availabilityScore direct icmp agent hasAvailable hasUnavailable =
     spec_score direct icmp agent (interfaceFlag (hasAvailable, hasUnavailable))"
  by (simp add: availabilityScore_def spec_score_def spec_weight_def interfaceFlag_def)

lemma statusOfScore_reconcile:
  "statusOfScore (availabilityScore direct icmp agent hasAvailable hasUnavailable) =
     spec_reconcile direct icmp agent (interfaceFlag (hasAvailable, hasUnavailable))"
  by (simp add: statusOfScore_def spec_reconcile_def availabilityScore_sum)

lemma scanInterfaces_flags:
  "scanInterfaces ifaces (a, u) =
     (a \<or> Some 1 \<in> set (interfaceFlags ifaces), u \<or> Some 2 \<in> set (interfaceFlags ifaces))"
  by (induction ifaces arbitrary: a u) (auto simp: interfaceFlags_def Let_def)

lemma scanInterfacesBreak_available:
  "fst (scanInterfacesBreak ifaces (a, u)) = (a \<or> Some 1 \<in> set (interfaceFlags ifaces))"
  by (induction ifaces arbitrary: a u) (auto simp: interfaceFlags_def Let_def)

lemma scanInterfacesBreak_unavailable:
  "Some 1 \<notin> set (interfaceFlags ifaces) \<Longrightarrow>
     snd (scanInterfacesBreak ifaces (a, u)) = (u \<or> Some 2 \<in> set (interfaceFlags ifaces))"
  by (induction ifaces arbitrary: a u) (auto simp: interfaceFlags_def Let_def)

lemma interfaceFlag_scanInterfaces:
  "interfaceFlag (scanInterfaces ifaces (False, False)) =
     (if Some 1 \<in> set (interfaceFlags ifaces) then ''available''
      else if Some 2 \<in> set (interfaceFlags ifaces) then ''unavailable'' else ''unknown'')"
  by (simp add: scanInterfaces_flags interfaceFlag_def)

lemma interfaceFlag_scanInterfacesBreak:
  "interfaceFlag (scanInterfacesBreak ifaces (False, False)) =
     (if Some 1 \<in> set (interfaceFlags ifaces) then ''available''
      else if Some 2 \<in> set (interfaceFlags ifaces) then ''unavailable'' else ''unknown'')"
  using scanInterfacesBreak_available [of ifaces False False]
        scanInterfacesBreak_unavailable [of ifaces False False]
  by (simp add: interfaceFlag_def)

lemmas eval_parse =
  parseInt_def parseIntStr_def parseFloat_def parseFloatStr_def stripSign_def trimStart_def
  trim_def isWhiteSpace_def isDigit_def digitsValue_def digitVal_def pow10_def
  parseExponent_def isNaN_def orElse_def Let_def

lemmas eval_hosts =
  icmpStatusOf_def agentStatusOf_def icmpMatch_def agentMatch_def isEnabled_def
  toLowerCase_def lastclockTime_def hasValue_def icmpValueStatus_def agentValueStatus_def
  ageSeconds_def isRecent_def fetchedItems_def

lemmas eval_metrics =
  metricIcmpStatus_def metricAgentStatus_def icmpPingMatch_def agentPingMatch_def
  toLowerCase_def hasValue_def icmpValueStatus_def agentValueStatus_def

lemmas eval_ping =
  directPing_def firstInterfaceIp_def pingHost_def pingCommand_def

text \<open>
  Claim C1.  In both routes the verdict of a host is the sign of the weighted score of its
  four signals: whenever the two item signals of \<^verbatim>\<open>/api/zabbix/hosts\<close> are resolved, the
  host is returned with the verdict that the reconciliation rule gives for the direct
  probe, the ICMP signal, the agent signal and the interface flag; the status of a
  \<^verbatim>\<open>/api/zabbix/metrics\<close> entry is the verdict for the four signals of that entry; and
  four signals outside their positive and negative states give \<open>unknown\<close>.
\<close>

theorem C1_verdict_is_sign_of_weighted_score:
  assumes "icmpStatusOf currentTime (fetchedItems itemsResult) = Inr icmp"
    and "agentStatusOf currentTime (fetchedItems itemsResult) = Inr agent"
  shows "enrichHost isWindows execAsync currentTime h itemsResult =
           Inr \<lparr> availabilityStatus =
                    spec_reconcile (directPing isWindows execAsync h) icmp agent
                      (interfaceFlag (scanInterfaces (interfaces h) (False, False))),
                  icmpStatus = icmp,
                  agentStatus = agent,
                  directPingStatus = directPing isWindows execAsync h \<rparr>
         \<and> metricStatus (hostMetrics isWindows execAsync h allItems) =
             spec_reconcile (m_directPingStatus (hostMetrics isWindows execAsync h allItems))
               (m_icmpStatus (hostMetrics isWindows execAsync h allItems))
               (agentCheckStatus (hostMetrics isWindows execAsync h allItems))
               (interfaceFlag (scanInterfacesBreak (interfaces h) (False, False)))
         \<and> (direct0 \<noteq> ''responding'' \<and> direct0 \<noteq> ''no response'' \<and>
            icmp0 \<noteq> ''responding'' \<and> icmp0 \<noteq> ''no response'' \<and>
            agent0 \<noteq> ''available'' \<and> agent0 \<noteq> ''unavailable'' \<longrightarrow>
            statusOfScore (availabilityScore direct0 icmp0 agent0 False False) = ''unknown'')"
proof -
  have hosts: "enrichHost isWindows execAsync currentTime h itemsResult =
           Inr \<lparr> availabilityStatus =
                    spec_reconcile (directPing isWindows execAsync h) icmp agent
                      (interfaceFlag (scanInterfaces (interfaces h) (False, False))),
                  icmpStatus = icmp,
                  agentStatus = agent,
                  directPingStatus = directPing isWindows execAsync h \<rparr>"
    using assms
    by (cases "scanInterfaces (interfaces h) (False, False)")
       (simp add: enrichHost_def statusOfScore_reconcile Let_def)
  have metrics: "metricStatus (hostMetrics isWindows execAsync h allItems) =
             spec_reconcile (m_directPingStatus (hostMetrics isWindows execAsync h allItems))
               (m_icmpStatus (hostMetrics isWindows execAsync h allItems))
               (agentCheckStatus (hostMetrics isWindows execAsync h allItems))
               (interfaceFlag (scanInterfacesBreak (interfaces h) (False, False)))"
    by (cases "scanInterfacesBreak (interfaces h) (False, False)")
       (simp add: hostMetrics_def statusOfScore_reconcile Let_def)
  have silent: "direct0 \<noteq> ''responding'' \<and> direct0 \<noteq> ''no response'' \<and>
            icmp0 \<noteq> ''responding'' \<and> icmp0 \<noteq> ''no response'' \<and>
            agent0 \<noteq> ''available'' \<and> agent0 \<noteq> ''unavailable'' \<longrightarrow>
            statusOfScore (availabilityScore direct0 icmp0 agent0 False False) = ''unknown''"
    by (simp add: statusOfScore_def availabilityScore_def)
  from hosts metrics silent show ?thesis by blast
qed

theorem C1_verdict_witness:
  "enrichHost False pingReplied 1700000100 exampleHost (Inr [exactKeyItem]) =
     Inr \<lparr> availabilityStatus = ''available'', icmpStatus = ''no response'',
            agentStatus = ''not configured'', directPingStatus = ''responding'' \<rparr>
   \<and> metricStatus (hostMetrics False pingReplied exampleHost [exactKeyItem]) = ''available''
   \<and> statusOfScore (availabilityScore ''no ip'' ''not configured'' ''stale data'' False False) = ''unknown''"
proof -
  have icmp: "icmpStatusOf 1700000100 (fetchedItems (Inr [exactKeyItem])) = Inr ''no response''"
    by (simp add: eval_hosts eval_parse)
  have agent: "agentStatusOf 1700000100 (fetchedItems (Inr [exactKeyItem])) = Inr ''not configured''"
    by (simp add: eval_hosts eval_parse)
  have direct: "directPing False pingReplied exampleHost = ''responding''"
    by (simp add: eval_ping)
  have micmp: "m_icmpStatus (hostMetrics False pingReplied exampleHost [exactKeyItem]) = ''no response''"
    by (simp add: hostMetrics_def split_def eval_metrics eval_parse)
  have magent: "agentCheckStatus (hostMetrics False pingReplied exampleHost [exactKeyItem]) = ''not configured''"
    by (simp add: hostMetrics_def split_def eval_metrics eval_parse)
  have mdirect: "m_directPingStatus (hostMetrics False pingReplied exampleHost [exactKeyItem]) = ''responding''"
    by (simp add: hostMetrics_def split_def eval_ping Let_def)
  show ?thesis
    using C1_verdict_is_sign_of_weighted_score [OF icmp agent,
        where isWindows = False and execAsync = pingReplied and h = exampleHost
          and allItems = "[exactKeyItem]" and ?direct0.0 = "''no ip''"
          and ?icmp0.0 = "''not configured''" and ?agent0.0 = "''stale data''"]
    by (simp add: direct micmp magent mdirect eval_parse interfaceFlag_def
          spec_reconcile_def spec_score_def spec_weight_def statusOfScore_def availabilityScore_def)
qed

text \<open>
  Claim C5, as the code has it.  With the four signals in their positive states the score is 8
  (3 + 2 + 2 + 1) and the verdict is \<open>available\<close>; with the four signals in their negative
  states the score is -8 and the verdict is \<open>unavailable\<close>.
\<close>

theorem C5_extreme_scores:
  "availabilityScore ''responding'' ''responding'' ''available'' True hasUnavailable = 8
   \<and> statusOfScore (availabilityScore ''responding'' ''responding'' ''available'' True hasUnavailable)
       = ''available''
   \<and> availabilityScore ''no response'' ''no response'' ''unavailable'' False True = - 8
   \<and> statusOfScore (availabilityScore ''no response'' ''no response'' ''unavailable'' False True)
       = ''unavailable''"
  by (simp add: availabilityScore_def statusOfScore_def)

text \<open>The scores 9 and -9 of the claim as stated are not reached.\<close>

theorem C5_score_nine_counterexample:
  "availabilityScore ''responding'' ''responding'' ''available'' True False \<noteq> 9
   \<and> availabilityScore ''no response'' ''no response'' ''unavailable'' False True \<noteq> - 9"
  by (simp add: availabilityScore_def)

text \<open>
  Claim C10.  In both routes the interface flags add 1 to the score when some interface
  has the parsed flag 1, whatever the other interfaces say; they subtract 1 when no
  interface has flag 1 and some interface has flag 2; and they leave the score unchanged
  otherwise.
\<close>

theorem C10_available_interface_takes_precedence:
  "availabilityScore direct icmp agent
       (fst (scanInterfaces ifaces (False, False))) (snd (scanInterfaces ifaces (False, False))) =
     availabilityScore direct icmp agent False False +
       (if Some 1 \<in> set (interfaceFlags ifaces) then 1
        else if Some 2 \<in> set (interfaceFlags ifaces) then - 1 else 0)
   \<and> availabilityScore direct icmp agent
       (fst (scanInterfacesBreak ifaces (False, False)))
       (snd (scanInterfacesBreak ifaces (False, False))) =
     availabilityScore direct icmp agent False False +
       (if Some 1 \<in> set (interfaceFlags ifaces) then 1
        else if Some 2 \<in> set (interfaceFlags ifaces) then - 1 else 0)"
proof -
  have "availabilityScore direct icmp agent (fst st) (snd st) =
          availabilityScore direct icmp agent False False +
            spec_weight 1 ''available'' ''unavailable'' (interfaceFlag st)" for st
    by (simp add: availabilityScore_def spec_weight_def interfaceFlag_def Let_def)
  then show ?thesis
    by (simp add: interfaceFlag_scanInterfaces interfaceFlag_scanInterfacesBreak spec_weight_def)
qed

theorem C10_precedence_witness:
  "interfaceFlags (interfaces exampleHost) = [Some 2, Some 1]
   \<and> availabilityScore ''no ip'' ''not configured'' ''not configured''
       (fst (scanInterfaces (interfaces exampleHost) (False, False)))
       (snd (scanInterfaces (interfaces exampleHost) (False, False))) = 1
   \<and> availabilityScore ''no ip'' ''not configured'' ''not configured''
       (fst (scanInterfacesBreak (interfaces exampleHost) (False, False)))
       (snd (scanInterfacesBreak (interfaces exampleHost) (False, False))) = 1"
  using C10_available_interface_takes_precedence
    [of "''no ip''" "''not configured''" "''not configured''" "interfaces exampleHost"]
  by (simp add: interfaceFlags_def eval_parse availabilityScore_def)

section \<open>Item matching\<close>

lemma find_split_iff:
  "find P items = Some i \<longleftrightarrow>
      (\<exists>pre post. items = pre @ i # post \<and> P i \<and> (\<forall>j \<in> set pre. \<not> P j))"
proof
  assume "find P items = Some i"
  then show "\<exists>pre post. items = pre @ i # post \<and> P i \<and> (\<forall>j \<in> set pre. \<not> P j)"
    by (rule find_Some_split)
next
  assume "\<exists>pre post. items = pre @ i # post \<and> P i \<and> (\<forall>j \<in> set pre. \<not> P j)"
  then obtain pre post where "items = pre @ i # post" "P i" "\<forall>j \<in> set pre. \<not> P j"
    by blast
  then show "find P items = Some i"
    by (simp add: find_first_match)
qed

lemma zero_no_response: "icmpValueStatus (JStr ''0'') = ''no response''"
  by (simp add: icmpValueStatus_def eval_parse)

lemma exact_key_icmpMatch: "isEnabled a \<Longrightarrow> key a = ''icmpping'' \<Longrightarrow> icmpMatch a"
  by (simp add: icmpMatch_def toLowerCase_def)

lemma exact_key_icmpPingMatch: "key a = ''icmpping'' \<Longrightarrow> icmpPingMatch a"
  by (simp add: icmpPingMatch_def toLowerCase_def)


lemma exactKeyItem_clock: "lastclockTime (JStr ''1700000000'') = Inr ()"
  by (simp add: lastclockTime_def eval_parse)

lemma cpuItem_no_icmp: "\<not> icmpMatch cpuItem" "\<not> icmpPingMatch cpuItem"
  by (simp_all add: icmpMatch_def icmpPingMatch_def toLowerCase_def)

lemma one_responding: "icmpValueStatus (JStr ''1'') = ''responding''"
  by (simp add: icmpValueStatus_def eval_parse)

lemma responseTimeItem_icmpMatch: "icmpMatch responseTimeItem"
  by (simp add: icmpMatch_def isEnabled_def toLowerCase_def)

lemma icmp_response_name_icmpMatch:
  "isEnabled b \<Longrightarrow> str_includes (toLowerCase (name b)) ''icmp response'' \<Longrightarrow> icmpMatch b"
  by (simp add: icmpMatch_def Let_def)

lemma icmpMatch_enabled: "icmpMatch i \<Longrightarrow> isEnabled i"
  by (simp add: icmpMatch_def Let_def)

text \<open>
  Claim C2, as the code has it.  The matcher is one \<^verbatim>\<open>find\<close> over the collection.  An
  item satisfies the predicate of \<^verbatim>\<open>/api/zabbix/hosts\<close> exactly when it is enabled and
  meets one of the criteria (exact key, bracketed key, key fragment, name synonym); the
  predicate of \<^verbatim>\<open>/api/zabbix/metrics\<close> has the same kinds of criteria and no test of the
  enabled flag.  The item returned is the first one, in collection order, that satisfies
  the predicate, and in \<^verbatim>\<open>/api/zabbix/hosts\<close> it is an enabled one; the criteria are not
  ranked against each other across items.  So, with an enabled exact-key \<^verbatim>\<open>icmpping\<close>
  item of last value "0" in the collection, that item is selected when no matching item
  stands before it, and the ICMP signal is then \<open>no response\<close> (in \<^verbatim>\<open>/api/zabbix/hosts\<close>
  for an item whose clock is a valid date, which the log entry needs); and when an enabled
  item whose name contains "icmp response", with last value "1" and a valid clock, stands
  first, that item is selected and the signal is \<open>responding\<close>, whatever follows it.
\<close>

theorem C2_first_matching_item_is_selected:
  "(icmpMatch i \<longleftrightarrow>
      isEnabled i \<and>
      (toLowerCase (key i) = ''icmpping'' \<or>
       toLowerCase (key i) = ''icmpping[]'' \<or>
       startsWith (toLowerCase (key i)) ''icmpping['' \<or>
       str_includes (toLowerCase (key i)) ''icmp'' \<or>
       str_includes (toLowerCase (name i)) ''icmp ping'' \<or>
       str_includes (toLowerCase (name i)) ''ping response'' \<or>
       str_includes (toLowerCase (name i)) ''icmp response''))
   \<and> (icmpPingMatch i \<longleftrightarrow>
      (key i \<noteq> [] \<and>
        (toLowerCase (key i) = ''icmpping'' \<or>
         toLowerCase (key i) = ''icmpping[]'' \<or>
         startsWith (toLowerCase (key i)) ''icmpping['' \<or>
         str_includes (toLowerCase (key i)) ''icmp'')) \<or>
      (name i \<noteq> [] \<and>
        (str_includes (toLowerCase (name i)) ''icmp ping'' \<or>
         str_includes (toLowerCase (name i)) ''ping response'')))
   \<and> (find icmpMatch items = Some i \<longleftrightarrow>
      (\<exists>pre post. items = pre @ i # post \<and> icmpMatch i \<and> (\<forall>j \<in> set pre. \<not> icmpMatch j)))
   \<and> (find icmpMatch items = Some i \<longrightarrow> isEnabled i)
   \<and> (find icmpPingMatch items = Some i \<longleftrightarrow>
      (\<exists>pre post. items = pre @ i # post \<and> icmpPingMatch i \<and> (\<forall>j \<in> set pre. \<not> icmpPingMatch j)))
   \<and> (isEnabled a \<and> key a = ''icmpping'' \<and> lastvalue a = JStr ''0'' \<and>
       (\<forall>j \<in> set before. \<not> icmpMatch j) \<longrightarrow>
         find icmpMatch (before @ a # after) = Some a \<and>
         (lastclockTime (lastclock a) = Inr () \<longrightarrow>
            icmpStatusOf currentTime (before @ a # after) = Inr ''no response''))
   \<and> (key a = ''icmpping'' \<and> lastvalue a = JStr ''0'' \<and> (\<forall>j \<in> set before. \<not> icmpPingMatch j) \<longrightarrow>
         find icmpPingMatch (before @ a # after) = Some a \<and>
         metricIcmpStatus (before @ a # after) = ''no response'')
   \<and> (isEnabled b \<and> str_includes (toLowerCase (name b)) ''icmp response'' \<and>
       lastvalue b = JStr ''1'' \<and> lastclockTime (lastclock b) = Inr () \<longrightarrow>
         find icmpMatch (b # rest) = Some b \<and>
         icmpStatusOf currentTime (b # rest) = Inr ''responding'')"
proof -
  have hostsCriteria: "icmpMatch i \<longleftrightarrow>
      isEnabled i \<and>
      (toLowerCase (key i) = ''icmpping'' \<or>
       toLowerCase (key i) = ''icmpping[]'' \<or>
       startsWith (toLowerCase (key i)) ''icmpping['' \<or>
       str_includes (toLowerCase (key i)) ''icmp'' \<or>
       str_includes (toLowerCase (name i)) ''icmp ping'' \<or>
       str_includes (toLowerCase (name i)) ''ping response'' \<or>
       str_includes (toLowerCase (name i)) ''icmp response'')"
    by (simp only: icmpMatch_def Let_def)
  have metricsCriteria: "icmpPingMatch i \<longleftrightarrow>
      (key i \<noteq> [] \<and>
        (toLowerCase (key i) = ''icmpping'' \<or>
         toLowerCase (key i) = ''icmpping[]'' \<or>
         startsWith (toLowerCase (key i)) ''icmpping['' \<or>
         str_includes (toLowerCase (key i)) ''icmp'')) \<or>
      (name i \<noteq> [] \<and>
        (str_includes (toLowerCase (name i)) ''icmp ping'' \<or>
         str_includes (toLowerCase (name i)) ''ping response''))"
    by (simp only: icmpPingMatch_def)
  have hostsFirst: "find icmpMatch items = Some i \<longleftrightarrow>
      (\<exists>pre post. items = pre @ i # post \<and> icmpMatch i \<and> (\<forall>j \<in> set pre. \<not> icmpMatch j))"
    by (rule find_split_iff)
  have hostsEnabled: "find icmpMatch items = Some i \<longrightarrow> isEnabled i"
    using hostsFirst icmpMatch_enabled by blast
  have metricsFirst: "find icmpPingMatch items = Some i \<longleftrightarrow>
      (\<exists>pre post. items = pre @ i # post \<and> icmpPingMatch i \<and> (\<forall>j \<in> set pre. \<not> icmpPingMatch j))"
    by (rule find_split_iff)
  have hostsExact: "isEnabled a \<and> key a = ''icmpping'' \<and> lastvalue a = JStr ''0'' \<and>
       (\<forall>j \<in> set before. \<not> icmpMatch j) \<longrightarrow>
         find icmpMatch (before @ a # after) = Some a \<and>
         (lastclockTime (lastclock a) = Inr () \<longrightarrow>
            icmpStatusOf currentTime (before @ a # after) = Inr ''no response'')"
  proof (intro impI conjI)
    assume h: "isEnabled a \<and> key a = ''icmpping'' \<and> lastvalue a = JStr ''0'' \<and>
       (\<forall>j \<in> set before. \<not> icmpMatch j)"
    then have m: "icmpMatch a" by (simp add: exact_key_icmpMatch)
    from h have "\<forall>j \<in> set before. \<not> icmpMatch j" by simp
    then show f: "find icmpMatch (before @ a # after) = Some a"
      using m by (rule find_first_match)
    assume c: "lastclockTime (lastclock a) = Inr ()"
    from h have "hasValue (lastvalue a)" by (simp add: hasValue_def)
    with h f c show "icmpStatusOf currentTime (before @ a # after) = Inr ''no response''"
      by (simp add: icmpStatusOf_def zero_no_response)
  qed
  have metricsExact: "key a = ''icmpping'' \<and> lastvalue a = JStr ''0'' \<and>
       (\<forall>j \<in> set before. \<not> icmpPingMatch j) \<longrightarrow>
         find icmpPingMatch (before @ a # after) = Some a \<and>
         metricIcmpStatus (before @ a # after) = ''no response''"
  proof (intro impI conjI)
    assume h: "key a = ''icmpping'' \<and> lastvalue a = JStr ''0'' \<and> (\<forall>j \<in> set before. \<not> icmpPingMatch j)"
    then have m: "icmpPingMatch a" by (simp add: exact_key_icmpPingMatch)
    from h have "\<forall>j \<in> set before. \<not> icmpPingMatch j" by simp
    then show f: "find icmpPingMatch (before @ a # after) = Some a"
      using m by (rule find_first_match)
    from h have "hasValue (lastvalue a)" by (simp add: hasValue_def)
    with h f show "metricIcmpStatus (before @ a # after) = ''no response''"
      by (simp add: metricIcmpStatus_def zero_no_response)
  qed
  have nameFirst: "isEnabled b \<and> str_includes (toLowerCase (name b)) ''icmp response'' \<and>
       lastvalue b = JStr ''1'' \<and> lastclockTime (lastclock b) = Inr () \<longrightarrow>
         find icmpMatch (b # rest) = Some b \<and>
         icmpStatusOf currentTime (b # rest) = Inr ''responding''"
  proof (intro impI conjI)
    assume h: "isEnabled b \<and> str_includes (toLowerCase (name b)) ''icmp response'' \<and>
       lastvalue b = JStr ''1'' \<and> lastclockTime (lastclock b) = Inr ()"
    then have m: "icmpMatch b" by (simp add: icmp_response_name_icmpMatch)
    then show f: "find icmpMatch (b # rest) = Some b" by simp
    from h have "hasValue (lastvalue b)" by (simp add: hasValue_def)
    with h f show "icmpStatusOf currentTime (b # rest) = Inr ''responding''"
      by (simp add: icmpStatusOf_def one_responding)
  qed
  show ?thesis
    by (intro conjI hostsCriteria metricsCriteria hostsFirst hostsEnabled metricsFirst
          hostsExact metricsExact nameFirst)
qed

theorem C2_first_match_witness:
  "isEnabled exactKeyItem \<and> \<not> icmpMatch cpuItem \<and> \<not> icmpPingMatch cpuItem
   \<and> lastclockTime (lastclock exactKeyItem) = Inr ()
   \<and> find icmpMatch [cpuItem, exactKeyItem, responseTimeItem] = Some exactKeyItem
   \<and> icmpStatusOf 1700000100 [cpuItem, exactKeyItem, responseTimeItem] = Inr ''no response''
   \<and> metricIcmpStatus [cpuItem, exactKeyItem, responseTimeItem] = ''no response''
   \<and> isEnabled responseTimeItem
   \<and> icmpStatusOf 1700000100 [responseTimeItem, cpuItem] = Inr ''responding''"
proof -
  have name: "str_includes (toLowerCase (name responseTimeItem)) ''icmp response''"
    by (simp add: toLowerCase_def)
  note selected = C2_first_matching_item_is_selected
        [where a = exactKeyItem and before = "[cpuItem]" and after = "[responseTimeItem]"
           and currentTime = 1700000100 and b = responseTimeItem and rest = "[cpuItem]"]
  show ?thesis
    using selected [THEN conjunct2, THEN conjunct2, THEN conjunct2, THEN conjunct2, THEN conjunct2]
      name
    by (simp add: isEnabled_def exactKeyItem_clock cpuItem_no_icmp)
qed

text \<open>
  The claim as stated fails when the item matched by its name comes first: the name match
  is selected and the signal is \<open>responding\<close>.
\<close>

theorem C2_exact_key_loses_counterexample:
  "isEnabled exactKeyItem \<and> key exactKeyItem = ''icmpping'' \<and> lastvalue exactKeyItem = JStr ''0''
   \<and> isEnabled responseTimeItem
   \<and> str_includes (toLowerCase (name responseTimeItem)) ''icmp response''
   \<and> lastvalue responseTimeItem = JStr ''1''
   \<and> find icmpMatch [responseTimeItem, exactKeyItem] = Some responseTimeItem
   \<and> icmpStatusOf 1700000100 [responseTimeItem, exactKeyItem] = Inr ''responding''"
  by (simp add: icmpStatusOf_def responseTimeItem_icmpMatch one_responding exactKeyItem_clock
        hasValue_def isEnabled_def toLowerCase_def)

section \<open>Staleness\<close>

lemma parseInt_zero_default: "parseInt (JStr ''0'') = Some 0"
  by (simp add: eval_parse)

lemma ageSeconds_without_clock: "\<not> truthy stamp \<Longrightarrow> ageSeconds currentTime stamp = Some currentTime"
  by (simp add: ageSeconds_def orElse_def parseInt_zero_default)

lemma isRecent_threshold:
  "parseInt (orElse stamp ''0'') = Some t \<Longrightarrow> isRecent currentTime stamp \<longleftrightarrow> currentTime - t < 600"
  by (simp add: isRecent_def ageSeconds_def)

lemma icmpStatusOf_with_value:
  "find icmpMatch items = Some i \<Longrightarrow> lastclockTime (lastclock i) = Inr () \<Longrightarrow> hasValue (lastvalue i) \<Longrightarrow>
     icmpStatusOf currentTime items = Inr (icmpValueStatus (lastvalue i))"
  by (simp add: icmpStatusOf_def)

lemma icmpStatusOf_without_value:
  "find icmpMatch items = Some i \<Longrightarrow> lastclockTime (lastclock i) = Inr () \<Longrightarrow> \<not> hasValue (lastvalue i) \<Longrightarrow>
     icmpStatusOf currentTime items =
       Inr (if isRecent currentTime (lastclock i) then ''no data'' else ''stale data'')"
  by (simp add: icmpStatusOf_def)

lemma agentStatusOf_with_value:
  "find agentMatch items = Some i \<Longrightarrow> lastclockTime (lastclock i) = Inr () \<Longrightarrow> hasValue (lastvalue i) \<Longrightarrow>
     agentStatusOf currentTime items = Inr (agentValueStatus (lastvalue i))"
  by (simp add: agentStatusOf_def)

lemma agentStatusOf_without_value:
  "find agentMatch items = Some i \<Longrightarrow> lastclockTime (lastclock i) = Inr () \<Longrightarrow> \<not> hasValue (lastvalue i) \<Longrightarrow>
     agentStatusOf currentTime items =
       Inr (if isRecent currentTime (lastclock i) then ''no data'' else ''stale data'')"
  by (simp add: agentStatusOf_def)

lemma parseInt_undefined: "parseInt JUndefined = None"
  by (simp add: eval_parse)

lemma parseInt_null: "parseInt JNull = None"
  by (simp add: eval_parse)

lemma parseInt_empty: "parseInt (JStr []) = None"
  by (simp add: eval_parse)

lemma lastclockTime_without_clock:
  "lastclockTime JUndefined = Inl RangeError" "lastclockTime JNull = Inl RangeError"
  "lastclockTime (JStr []) = Inl RangeError"
  by (simp_all add: lastclockTime_def parseInt_undefined parseInt_null parseInt_empty)

lemma exactKeyItem_icmpMatch: "icmpMatch (exactKeyItem \<lparr> lastclock := stamp \<rparr>)"
  by (simp add: icmpMatch_def isEnabled_def toLowerCase_def)

lemma exactKeyItem_not_agentMatch: "\<not> agentMatch (exactKeyItem \<lparr> lastclock := stamp \<rparr>)"
  by (simp add: agentMatch_def toLowerCase_def)

lemma exactKeyItem_icmpStatus: "icmpStatusOf 1700000100 [exactKeyItem] = Inr ''no response''"
  using exactKeyItem_icmpMatch [of "JStr ''1700000000''"]
  by (simp add: icmpStatusOf_def exactKeyItem_clock hasValue_def zero_no_response)

lemma exactKeyItem_agentStatus: "agentStatusOf currentTime [exactKeyItem \<lparr> lastclock := stamp \<rparr>] = Inr ''not configured''"
  using exactKeyItem_not_agentMatch [of stamp]
  by (simp add: agentStatusOf_def)

lemma noClock_icmpStatus:
  "icmpStatusOf 1700000100 [exactKeyItem \<lparr> lastclock := JUndefined \<rparr>] = Inl RangeError"
  using exactKeyItem_icmpMatch [of JUndefined]
  by (simp add: icmpStatusOf_def lastclockTime_without_clock)

lemma noClock_enrichHost:
  "enrichHost isWindows execAsync 1700000100 h (Inr [exactKeyItem \<lparr> lastclock := JUndefined \<rparr>]) = Inl RangeError"
  using noClock_icmpStatus
  by (simp add: enrichHost_def fetchedItems_def split_def Let_def)

lemma plainHost_enrichHost:
  "\<exists>e. enrichHost isWindows execAsync 1700000100 plainHost (Inr [exactKeyItem]) = Inr e"
  using exactKeyItem_icmpStatus exactKeyItem_agentStatus [of 1700000100 "JStr ''1700000000''"]
  by (simp add: enrichHost_def fetchedItems_def split_def Let_def)

text \<open>
  Claim C3, at an item without a timestamp.  The default \<^verbatim>\<open>lastclock || '0'\<close> would give
  such an item the age \<open>currentTime\<close>, but the log entry written before it throws: the ICMP
  signal is not resolved, the host is not enriched, and the whole answer of
  \<^verbatim>\<open>/api/zabbix/hosts\<close> fails, also for the hosts whose items are in order.
\<close>

theorem C3_item_without_timestamp_throws:
  "icmpStatusOf 1700000100 [exactKeyItem \<lparr> lastclock := JUndefined \<rparr>] = Inl RangeError
   \<and> enrichHost False pingReplied 1700000100 exampleHost
        (Inr [exactKeyItem \<lparr> lastclock := JUndefined \<rparr>]) = Inl RangeError
   \<and> enrichAll False pingReplied 1700000100
        [(plainHost, Inr [exactKeyItem]),
         (exampleHost, Inr [exactKeyItem \<lparr> lastclock := JUndefined \<rparr>])] = Inl RangeError"
proof -
  obtain e where "enrichHost False pingReplied 1700000100 plainHost (Inr [exactKeyItem]) = Inr e"
    using plainHost_enrichHost by blast
  then have "enrichAll False pingReplied 1700000100
        [(plainHost, Inr [exactKeyItem]),
         (exampleHost, Inr [exactKeyItem \<lparr> lastclock := JUndefined \<rparr>])] = Inl RangeError"
    using noClock_enrichHost [of False pingReplied exampleHost] by simp
  then show ?thesis
    using noClock_icmpStatus noClock_enrichHost [of False pingReplied exampleHost] by simp
qed

section \<open>Direct probe\<close>

lemma pingHost_never_throws: "\<exists>reachable. pingHost isWindows execAsync ipAddress = Inr reachable"
  by (cases "execAsync (pingCommand isWindows ipAddress)") (auto simp: pingHost_def)

lemma pingHost_rejected:
  "execAsync (pingCommand isWindows ipAddress) = Rejected err \<Longrightarrow>
     pingHost isWindows execAsync ipAddress = Inr False"
  by (simp add: pingHost_def)

lemma directPing_states:
  "directPing isWindows execAsync h \<in> {''responding'', ''no response'', ''no ip''}"
proof -
  obtain reachable where
    "pingHost isWindows execAsync (String_of (firstInterfaceIp h)) = Inr reachable"
    using pingHost_never_throws by blast
  then show ?thesis by (simp add: directPing_def Let_def)
qed

lemma plainHost_directPing: "directPing False pingNotInstalled plainHost = ''no response''"
  by (simp add: directPing_def firstInterfaceIp_def pingHost_def)

lemma no_items_status:
  "icmpStatusOf currentTime [] = Inr ''not configured''"
  "agentStatusOf currentTime [] = Inr ''not configured''"
  by (simp_all add: icmpStatusOf_def agentStatusOf_def)

lemma plainHost_flags: "scanInterfaces (interfaces plainHost) (False, False) = (False, False)"
  by (simp add: parseInt_zero_default orElse_def)

text \<open>
  Claim C6, at a host whose ping command cannot be started.  \<^verbatim>\<open>pingHost\<close> does not throw
  and returns false, as for a host that did not answer; the direct probe is
  \<open>no response\<close>, which counts -3, and with no other signal the host is \<open>unavailable\<close>.
\<close>

theorem C6_probe_failure_counts_as_no_response:
  "pingHost False pingNotInstalled ''10.0.0.7'' = Inr False
   \<and> directPing False pingNotInstalled plainHost = ''no response''
   \<and> enrichHost False pingNotInstalled 1700000100 plainHost (Inr []) =
       Inr \<lparr> availabilityStatus = ''unavailable'', icmpStatus = ''not configured'',
              agentStatus = ''not configured'', directPingStatus = ''no response'' \<rparr>
   \<and> availabilityScore (directPing False pingNotInstalled plainHost)
        ''not configured'' ''not configured'' False False = - 3"
proof -
  have score: "availabilityScore ''no response'' ''not configured'' ''not configured'' False False = - 3"
    by (simp add: availabilityScore_def)
  have "enrichHost False pingNotInstalled 1700000100 plainHost (Inr []) =
       Inr \<lparr> availabilityStatus = ''unavailable'', icmpStatus = ''not configured'',
              agentStatus = ''not configured'', directPingStatus = ''no response'' \<rparr>"
    using plainHost_flags
    by (simp add: enrichHost_def fetchedItems_def no_items_status plainHost_directPing
          score statusOfScore_def)
  then show ?thesis
    by (simp add: pingHost_def plainHost_directPing score)
qed

section \<open>Numeric parsing\<close>

lemma digit_not_special:
  "isDigit c \<Longrightarrow> \<not> isWhiteSpace c \<and> c \<noteq> CHR ''-'' \<and> c \<noteq> CHR ''+'' \<and> c \<noteq> CHR ''I'' \<and> c \<noteq> CHR ''.''"
  by (auto simp: isDigit_def isWhiteSpace_def Let_def)

lemma toLowerCaseChar_cases:
  "toLowerCaseChar c = c \<or> (65 \<le> (of_char c :: nat) \<and> (of_char c :: nat) \<le> 90)"
  by (cases c) (simp add: Let_def)

lemma lower_letter_first:
  assumes "toLowerCaseChar c = d" and "97 \<le> (of_char d :: nat)" and "(of_char d :: nat) \<le> 122"
    and "d \<noteq> CHR ''i''"
  shows "\<not> isWhiteSpace c \<and> c \<noteq> CHR ''-'' \<and> c \<noteq> CHR ''+'' \<and> c \<noteq> CHR ''I'' \<and> \<not> isDigit c \<and> c \<noteq> CHR ''.''"
proof -
  have notI: "c \<noteq> CHR ''I''" using assms by auto
  from toLowerCaseChar_cases [of c] show ?thesis
  proof
    assume "toLowerCaseChar c = c"
    with assms have "97 \<le> (of_char c :: nat)" by simp
    then show ?thesis using notI by (auto simp: isDigit_def isWhiteSpace_def Let_def)
  next
    assume "65 \<le> (of_char c :: nat) \<and> (of_char c :: nat) \<le> 90"
    then show ?thesis using notI by (auto simp: isDigit_def isWhiteSpace_def Let_def)
  qed
qed

lemma parseFloatStr_plain:
  assumes "\<not> isWhiteSpace c" "c \<noteq> CHR ''-''" "c \<noteq> CHR ''+''" "c \<noteq> CHR ''I''"
  shows "parseFloatStr (c # cs) =
     (let ip = takeWhile isDigit (c # cs);
          r1 = dropWhile isDigit (c # cs);
          (fp, r2) = (case r1 of [] \<Rightarrow> ([], r1)
                  | d # r \<Rightarrow> if d = CHR ''.'' then (takeWhile isDigit r, dropWhile isDigit r)
                             else ([], r1))
      in if ip = [] \<and> fp = [] then NaN
         else Num (of_nat (digitsValue (ip @ fp)) * pow10 (parseExponent r2 - int (length fp))))"
  using assms by (simp add: parseFloatStr_def trimStart_def stripSign_def Let_def)

lemma parseFloatStr_no_number:
  assumes "\<not> isWhiteSpace c" "c \<noteq> CHR ''-''" "c \<noteq> CHR ''+''" "c \<noteq> CHR ''I''"
    and "\<not> isDigit c" "c \<noteq> CHR ''.''"
  shows "parseFloatStr (c # cs) = NaN"
  using assms by (simp add: parseFloatStr_plain)

lemma parseFloatStr_digits:
  assumes "ds \<noteq> []" and "\<forall>c \<in> set ds. isDigit c"
  shows "parseFloatStr ds = Num (of_nat (digitsValue ds))"
proof -
  obtain c cs where ds: "ds = c # cs" using assms(1) by (cases ds) auto
  then have c: "isDigit c" using assms(2) by simp
  have tw: "takeWhile isDigit (c # cs) = c # cs" "dropWhile isDigit (c # cs) = []"
    using assms(2) ds by auto
  have "parseFloatStr (c # cs) = Num (of_nat (digitsValue (c # cs)))"
    using digit_not_special [OF c]
    by (simp add: parseFloatStr_plain tw parseExponent_def pow10_def del: takeWhile.simps dropWhile.simps)
  then show ?thesis using ds by simp
qed

lemma parseFloatStr_decimal:
  assumes "ds \<noteq> []" and "\<forall>c \<in> set ds. isDigit c" and "\<forall>c \<in> set fs. isDigit c"
  shows "parseFloatStr (ds @ CHR ''.'' # fs) = Num (of_nat (digitsValue (ds @ fs)) / 10 ^ length fs)"
proof -
  obtain c cs where ds: "ds = c # cs" using assms(1) by (cases ds) auto
  then have c: "isDigit c" using assms(2) by simp
  have nd: "\<not> isDigit (CHR ''.'')" by (simp add: isDigit_def)
  have tw: "takeWhile isDigit (c # cs @ CHR ''.'' # fs) = ds"
    using assms(2) ds nd takeWhile_tail [of isDigit "CHR ''.''" ds fs] by simp
  have dw: "dropWhile isDigit (c # cs @ CHR ''.'' # fs) = CHR ''.'' # fs"
    using assms(2) ds nd dropWhile_append2 [of ds isDigit "CHR ''.'' # fs"] by simp
  have fp: "takeWhile isDigit fs = fs" "dropWhile isDigit fs = []"
    using assms(3) by auto
  have p: "pow10 (- int (length fs)) = 1 / 10 ^ length fs"
    by (simp add: pow10_def)
  have "parseFloatStr (c # cs @ CHR ''.'' # fs) = Num (of_nat (digitsValue (ds @ fs)) / 10 ^ length fs)"
    using digit_not_special [OF c] assms(1)
    by (simp add: parseFloatStr_plain tw dw fp parseExponent_def p del: takeWhile.simps dropWhile.simps)
  then show ?thesis using ds by simp
qed

lemma parseFloatStr_up: "toLowerCase s = ''up'' \<Longrightarrow> parseFloatStr s = NaN"
proof -
  assume "toLowerCase s = ''up''"
  then obtain c cs where s: "s = c # cs" and c: "toLowerCaseChar c = CHR ''u''"
    by (auto simp: toLowerCase_def map_eq_Cons_conv)
  from lower_letter_first [OF c] show ?thesis
    unfolding s by (intro parseFloatStr_no_number) simp_all
qed

lemma parseFloatStr_down: "toLowerCase s = ''down'' \<Longrightarrow> parseFloatStr s = NaN"
proof -
  assume "toLowerCase s = ''down''"
  then obtain c cs where s: "s = c # cs" and c: "toLowerCaseChar c = CHR ''d''"
    by (auto simp: toLowerCase_def map_eq_Cons_conv)
  from lower_letter_first [OF c] show ?thesis
    unfolding s by (intro parseFloatStr_no_number) simp_all
qed

lemma underflow_bound: "0 < (1::rat) / 2 ^ 1075" "(1::rat) / 2 ^ 1075 < 1"
  by simp_all

lemma greaterThanZero_of_nat: "greaterThanZero (Num (of_nat n)) \<longleftrightarrow> 0 < n"
proof (cases "n = 0")
  case True
  then show ?thesis using underflow_bound(1) by simp
next
  case False
  then have "(1::rat) \<le> of_nat n" by simp
  then have "(1::rat) / 2 ^ 1075 < of_nat n" using underflow_bound(2) by linarith
  then show ?thesis using False by simp
qed


lemma one_parses: "parseFloatStr ''1'' = Num 1" "parseFloatStr ''0'' = Num 0"
  by (simp_all add: eval_parse)

text \<open>
  Claim C4.  With \<open>strValue\<close> the trimmed string of a present value: when the numeric
  parse succeeds, a number above zero gives responding/available and any other number
  gives no response/unavailable; when it fails, "1" or "up" in any letter case gives
  responding/available, "0" or "down" gives no response/unavailable, and anything else
  gives unknown.  A string of digits always parses, and is positive exactly when its
  value is not zero; "up" and "down" never parse.
\<close>

theorem C4_value_coercion:
  assumes "strValue = trim (String_of v)"
  shows "(\<not> isNaN (parseFloatStr strValue) \<longrightarrow>
            icmpValueStatus v =
              (if greaterThanZero (parseFloatStr strValue) then ''responding'' else ''no response'') \<and>
            agentValueStatus v =
              (if greaterThanZero (parseFloatStr strValue) then ''available'' else ''unavailable''))
       \<and> (isNaN (parseFloatStr strValue) \<longrightarrow>
            icmpValueStatus v =
              (if strValue = ''1'' \<or> toLowerCase strValue = ''up'' then ''responding''
               else if strValue = ''0'' \<or> toLowerCase strValue = ''down'' then ''no response''
               else ''unknown'') \<and>
            agentValueStatus v =
              (if strValue = ''1'' \<or> toLowerCase strValue = ''up'' then ''available''
               else if strValue = ''0'' \<or> toLowerCase strValue = ''down'' then ''unavailable''
               else ''unknown''))
       \<and> (strValue \<noteq> [] \<and> (\<forall>c \<in> set strValue. isDigit c) \<longrightarrow>
            icmpValueStatus v = (if 0 < digitsValue strValue then ''responding'' else ''no response'') \<and>
            agentValueStatus v = (if 0 < digitsValue strValue then ''available'' else ''unavailable''))
       \<and> (toLowerCase strValue = ''up'' \<longrightarrow>
            icmpValueStatus v = ''responding'' \<and> agentValueStatus v = ''available'')
       \<and> (toLowerCase strValue = ''down'' \<longrightarrow>
            icmpValueStatus v = ''no response'' \<and> agentValueStatus v = ''unavailable'')"
proof (intro conjI impI)
  assume "\<not> isNaN (parseFloatStr strValue)"
  then show "icmpValueStatus v =
              (if greaterThanZero (parseFloatStr strValue) then ''responding'' else ''no response'')"
    and "agentValueStatus v =
              (if greaterThanZero (parseFloatStr strValue) then ''available'' else ''unavailable'')"
    using assms by (simp_all add: icmpValueStatus_def agentValueStatus_def Let_def)
next
  assume "isNaN (parseFloatStr strValue)"
  then show "icmpValueStatus v =
              (if strValue = ''1'' \<or> toLowerCase strValue = ''up'' then ''responding''
               else if strValue = ''0'' \<or> toLowerCase strValue = ''down'' then ''no response''
               else ''unknown'')"
    and "agentValueStatus v =
              (if strValue = ''1'' \<or> toLowerCase strValue = ''up'' then ''available''
               else if strValue = ''0'' \<or> toLowerCase strValue = ''down'' then ''unavailable''
               else ''unknown'')"
    using assms by (simp_all add: icmpValueStatus_def agentValueStatus_def Let_def)
next
  assume d: "strValue \<noteq> [] \<and> (\<forall>c \<in> set strValue. isDigit c)"
  then have p: "parseFloatStr (trim (String_of v)) = Num (of_nat (digitsValue strValue))"
    using assms parseFloatStr_digits [of strValue] by simp
  show "icmpValueStatus v = (if 0 < digitsValue strValue then ''responding'' else ''no response'')"
    and "agentValueStatus v = (if 0 < digitsValue strValue then ''available'' else ''unavailable'')"
    by (simp_all add: icmpValueStatus_def agentValueStatus_def Let_def p isNaN_def
          greaterThanZero_of_nat del: greaterThanZero.simps)
next
  assume u: "toLowerCase strValue = ''up''"
  then have "parseFloatStr (trim (String_of v)) = NaN" "toLowerCase (trim (String_of v)) = ''up''"
    using assms parseFloatStr_up by simp_all
  then show "icmpValueStatus v = ''responding''" and "agentValueStatus v = ''available''"
    by (simp_all add: icmpValueStatus_def agentValueStatus_def Let_def isNaN_def)
next
  assume u: "toLowerCase strValue = ''down''"
  then have n: "parseFloatStr (trim (String_of v)) = NaN" "toLowerCase (trim (String_of v)) = ''down''"
    using assms parseFloatStr_down by simp_all
  have "trim (String_of v) \<noteq> ''1''"
    using n(2) by (auto simp: toLowerCase_def)
  with n show "icmpValueStatus v = ''no response''" and "agentValueStatus v = ''unavailable''"
    by (simp_all add: icmpValueStatus_def agentValueStatus_def Let_def isNaN_def)
qed

lemma trim_examples:
  "trim '' Up '' = ''Up''" "trim ''down'' = ''down''" "trim ''42'' = ''42''" "trim ''-1.5'' = ''-1.5''"
  "trim ''n/a'' = ''n/a''"
  by (simp_all add: trim_def isWhiteSpace_def)

lemma parse_examples:
  "parseFloatStr ''-1.5'' = Num (- (3 / 2))" "parseFloatStr ''n/a'' = NaN"
  by (simp_all add: eval_parse)

theorem C4_value_coercion_witness:
  "icmpValueStatus (JStr '' Up '') = ''responding'' \<and> agentValueStatus (JStr '' Up '') = ''available''
   \<and> icmpValueStatus (JStr ''down'') = ''no response'' \<and> agentValueStatus (JStr ''down'') = ''unavailable''
   \<and> icmpValueStatus (JStr ''42'') = ''responding'' \<and> agentValueStatus (JStr ''42'') = ''available''
   \<and> icmpValueStatus (JStr ''-1.5'') = ''no response'' \<and> agentValueStatus (JStr ''-1.5'') = ''unavailable''
   \<and> icmpValueStatus (JStr ''n/a'') = ''unknown'' \<and> agentValueStatus (JStr ''n/a'') = ''unknown''"
proof -
  have up: "toLowerCase ''Up'' = ''up''" by (simp add: toLowerCase_def)
  have down: "toLowerCase ''down'' = ''down''" by (simp add: toLowerCase_def)
  have na: "toLowerCase ''n/a'' = ''n/a''" by (simp add: toLowerCase_def)
  have digits: "\<forall>c \<in> set ''42''. isDigit c" "digitsValue ''42'' = 42"
    by (simp_all add: isDigit_def digitsValue_def digitVal_def)
  have neg: "\<not> greaterThanZero (Num (- (3 / 2)))" by simp
  show ?thesis
    using C4_value_coercion [of "''Up''" "JStr '' Up ''"]
      C4_value_coercion [of "''down''" "JStr ''down''"]
      C4_value_coercion [of "''42''" "JStr ''42''"]
      C4_value_coercion [of "''-1.5''" "JStr ''-1.5''"]
      C4_value_coercion [of "''n/a''" "JStr ''n/a''"]
    by (simp add: trim_examples parse_examples up down na digits neg isNaN_def
          del: greaterThanZero.simps)
qed


section \<open>Metric values\<close>

lemma parseItemValue_not_NaN: "\<not> isNaN (parseItemValue v)"
  by (simp add: parseItemValue_def isNaN_def Let_def)

lemma hostMetrics_fields:
  "cpuUtilization (hostMetrics isWindows execAsync h allItems) = parseItemValue (lastvalueOf (find cpuMatch allItems))"
  "memoryUtilization (hostMetrics isWindows execAsync h allItems) = parseItemValue (lastvalueOf (find memMatch allItems))"
  "diskUsage (hostMetrics isWindows execAsync h allItems) = parseItemValue (lastvalueOf (find diskMatch allItems))"
  "networkIn (hostMetrics isWindows execAsync h allItems) = parseItemValue (lastvalueOf (find netInMatch allItems))"
  "networkOut (hostMetrics isWindows execAsync h allItems) = parseItemValue (lastvalueOf (find netOutMatch allItems))"
  by (simp_all add: hostMetrics_def split_def Let_def)

text \<open>
  Claim C8.  \<^verbatim>\<open>parseItemValue\<close> gives 0 for an absent, null, empty or unparseable value,
  never \<^verbatim>\<open>NaN\<close>, and the parsed number otherwise: a decimal numeral \<open>ds.fs\<close> gives the
  number it denotes, "37.5" gives 37.5.  Each of the five numeric fields of a metrics
  entry is \<^verbatim>\<open>parseItemValue\<close> of the last value of the item found for it.
\<close>

theorem C8_parse_or_zero:
  "parseItemValue JUndefined = Num 0 \<and> parseItemValue JNull = Num 0 \<and> parseItemValue (JStr []) = Num 0
   \<and> (isNaN (parseFloat v) \<longrightarrow> parseItemValue v = Num 0)
   \<and> (hasValue v \<and> \<not> isNaN (parseFloat v) \<longrightarrow> parseItemValue v = parseFloat v)
   \<and> \<not> isNaN (parseItemValue v)
   \<and> (ds \<noteq> [] \<and> (\<forall>c \<in> set ds. isDigit c) \<and> (\<forall>c \<in> set fs. isDigit c) \<longrightarrow>
        parseItemValue (JStr (ds @ CHR ''.'' # fs)) = Num (of_nat (digitsValue (ds @ fs)) / 10 ^ length fs))
   \<and> parseItemValue (JStr ''37.5'') = Num (75 / 2)
   \<and> cpuUtilization (hostMetrics isWindows execAsync h allItems) =
        parseItemValue (lastvalueOf (find cpuMatch allItems))
   \<and> memoryUtilization (hostMetrics isWindows execAsync h allItems) =
        parseItemValue (lastvalueOf (find memMatch allItems))
   \<and> diskUsage (hostMetrics isWindows execAsync h allItems) =
        parseItemValue (lastvalueOf (find diskMatch allItems))
   \<and> networkIn (hostMetrics isWindows execAsync h allItems) =
        parseItemValue (lastvalueOf (find netInMatch allItems))
   \<and> networkOut (hostMetrics isWindows execAsync h allItems) =
        parseItemValue (lastvalueOf (find netOutMatch allItems))"
proof -
  have absent: "parseItemValue JUndefined = Num 0 \<and> parseItemValue JNull = Num 0 \<and>
      parseItemValue (JStr []) = Num 0"
    by (simp add: parseItemValue_def)
  have unparseable: "isNaN (parseFloat v) \<longrightarrow> parseItemValue v = Num 0"
    by (simp add: parseItemValue_def Let_def)
  have parsed: "hasValue v \<and> \<not> isNaN (parseFloat v) \<longrightarrow> parseItemValue v = parseFloat v"
    by (simp add: parseItemValue_def hasValue_def Let_def)
  have decimal: "ds \<noteq> [] \<and> (\<forall>c \<in> set ds. isDigit c) \<and> (\<forall>c \<in> set fs. isDigit c) \<longrightarrow>
        parseItemValue (JStr (ds @ CHR ''.'' # fs)) = Num (of_nat (digitsValue (ds @ fs)) / 10 ^ length fs)"
    by (simp add: parseItemValue_def parseFloat_def parseFloatStr_decimal isNaN_def Let_def)
  have example: "parseItemValue (JStr ''37.5'') = Num (75 / 2)"
    by (simp add: parseItemValue_def eval_parse)
  from absent unparseable parsed decimal example parseItemValue_not_NaN [of v]
    hostMetrics_fields [of isWindows execAsync h allItems]
  show ?thesis by simp
qed

lemma example_finds: "cpuMatch cpuItem" "\<not> memMatch cpuItem"
  by (simp_all add: cpuMatch_def memMatch_def toLowerCase_def)

theorem C8_parse_or_zero_witness:
  "isNaN (parseFloat (JStr ''n/a'')) \<and> parseItemValue (JStr ''n/a'') = Num 0
   \<and> hasValue (JStr ''-1.5'') \<and> parseItemValue (JStr ''-1.5'') = Num (- (3 / 2))
   \<and> list_all isDigit ''37'' \<and> list_all isDigit ''5''
   \<and> parseItemValue (JStr (''37'' @ CHR ''.'' # ''5'')) = Num (375 / 10)
   \<and> cpuUtilization (hostMetrics False pingReplied exampleHost [cpuItem]) = Num (75 / 2)
   \<and> memoryUtilization (hostMetrics False pingReplied exampleHost [cpuItem]) = Num 0"
proof -
  have digits: "\<forall>c \<in> set ''37''. isDigit c" "\<forall>c \<in> set ''5''. isDigit c" "digitsValue ''375'' = 375"
    by (simp_all add: isDigit_def digitsValue_def digitVal_def)
  show ?thesis
    using C8_parse_or_zero [of "JStr ''n/a''" "''37''" "''5''" False pingReplied exampleHost "[cpuItem]"]
      C8_parse_or_zero [of "JStr ''-1.5''" "''37''" "''5''" False pingReplied exampleHost "[cpuItem]"]
    by (simp add: digits parse_examples parseFloat_def isNaN_def hasValue_def example_finds
          lastvalueOf_def)
qed

section \<open>RPC failures\<close>

text \<open>
  Claim C9.  The call fails with the transport error exactly when the status of the
  response is outside 200 to 299; on a response inside that range it fails with the
  protocol error exactly when the envelope holds an error object, and the message is made
  of the \<^verbatim>\<open>data\<close> field of that object, or of its \<^verbatim>\<open>message\<close> field when \<^verbatim>\<open>data\<close> is absent
  or empty; otherwise the call returns the result of the envelope.
\<close>

theorem C9_rpc_failures:
  "((\<exists>m. zabbixApiRequest r = Inl (TransportError m)) \<longleftrightarrow> \<not> (200 \<le> http_status r \<and> http_status r \<le> 299))
   \<and> (\<not> response_ok r \<longrightarrow>
        zabbixApiRequest r = Inl (TransportError (''Zabbix API request failed: '' @ statusText r)))
   \<and> ((\<exists>m. zabbixApiRequest r = Inl (ProtocolError m)) \<longleftrightarrow>
        response_ok r \<and> envelope_error (json r) \<noteq> None)
   \<and> (response_ok r \<and> envelope_error (json r) = Some e \<longrightarrow>
        zabbixApiRequest r =
          Inl (ProtocolError (''Zabbix API error: '' @
                 String_of (if truthy (error_data e) then error_data e else error_message e))))
   \<and> (response_ok r \<and> envelope_error (json r) = None \<longrightarrow>
        zabbixApiRequest r = Inr (envelope_result (json r)))"
  by (cases "envelope_error (json r)") (auto simp: zabbixApiRequest_def response_ok_def)

theorem C9_rpc_failures_witness:
  "zabbixApiRequest \<lparr> http_status = 502, statusText = ''Bad Gateway'',
       json = \<lparr> envelope_error = None, envelope_result = ''7.0.0'' \<rparr> \<rparr>
     = Inl (TransportError ''Zabbix API request failed: Bad Gateway'')
   \<and> zabbixApiRequest \<lparr> http_status = 200, statusText = ''OK'',
       json = \<lparr> envelope_error = Some \<lparr> error_data = JStr ''Not authorized.'',
                                          error_message = JStr ''Invalid params.'' \<rparr>,
                envelope_result = ''7.0.0'' \<rparr> \<rparr>
     = Inl (ProtocolError ''Zabbix API error: Not authorized.'')
   \<and> zabbixApiRequest \<lparr> http_status = 200, statusText = ''OK'',
       json = \<lparr> envelope_error = Some \<lparr> error_data = JUndefined,
                                          error_message = JStr ''Invalid params.'' \<rparr>,
                envelope_result = ''7.0.0'' \<rparr> \<rparr>
     = Inl (ProtocolError ''Zabbix API error: Invalid params.'')
   \<and> zabbixApiRequest \<lparr> http_status = 200, statusText = ''OK'',
       json = \<lparr> envelope_error = None, envelope_result = ''7.0.0'' \<rparr> \<rparr>
     = Inr ''7.0.0''"
  using C9_rpc_failures [of "\<lparr> http_status = 502, statusText = ''Bad Gateway'',
       json = \<lparr> envelope_error = None, envelope_result = ''7.0.0'' \<rparr> \<rparr>"]
    C9_rpc_failures [of "\<lparr> http_status = 200, statusText = ''OK'',
       json = \<lparr> envelope_error = Some \<lparr> error_data = JStr ''Not authorized.'',
                                          error_message = JStr ''Invalid params.'' \<rparr>,
                envelope_result = ''7.0.0'' \<rparr> \<rparr>"
       "\<lparr> error_data = JStr ''Not authorized.'', error_message = JStr ''Invalid params.'' \<rparr>"]
    C9_rpc_failures [of "\<lparr> http_status = 200, statusText = ''OK'',
       json = \<lparr> envelope_error = Some \<lparr> error_data = JUndefined,
                                          error_message = JStr ''Invalid params.'' \<rparr>,
                envelope_result = ''7.0.0'' \<rparr> \<rparr>"
       "\<lparr> error_data = JUndefined, error_message = JStr ''Invalid params.'' \<rparr>"]
    C9_rpc_failures [of "\<lparr> http_status = 200, statusText = ''OK'',
       json = \<lparr> envelope_error = None, envelope_result = ''7.0.0'' \<rparr> \<rparr>"]
  by (simp add: response_ok_def)


section \<open>Problems\<close>

lemma buildTriggerHostMap_snoc:
  "buildTriggerHostMap (ts @ [t]) = addTrigger (buildTriggerHostMap ts) t"
  by (simp add: buildTriggerHostMap_def)

lemma addTrigger_other:
  "(triggerid x = k \<longrightarrow> hosts x = []) \<Longrightarrow> addTrigger m x k = m k"
  by (cases "hosts x") (auto simp: addTrigger_def)

lemma addTrigger_same:
  "triggerid t = k \<Longrightarrow> hosts t = h # hs \<Longrightarrow>
     addTrigger m t k = Some \<lparr> info_hostname = orUnknown (host_name h), info_host = orUnknown (host_host h) \<rparr>"
  by (simp add: addTrigger_def)

lemma buildTriggerHostMap_no_host:
  "(\<forall>t \<in> set ts. triggerid t = k \<longrightarrow> hosts t = []) \<Longrightarrow> buildTriggerHostMap ts k = None"
proof (induction ts rule: rev_induct)
  case Nil
  then show ?case by (simp add: buildTriggerHostMap_def)
next
  case (snoc x xs)
  then show ?case by (simp add: buildTriggerHostMap_snoc addTrigger_other)
qed

lemma buildTriggerHostMap_last:
  "triggerid t = k \<Longrightarrow> hosts t = h # hs \<Longrightarrow>
   (\<forall>t' \<in> set post. triggerid t' = k \<longrightarrow> hosts t' = []) \<Longrightarrow>
     buildTriggerHostMap (pre @ t # post) k =
       Some \<lparr> info_hostname = orUnknown (host_name h), info_host = orUnknown (host_host h) \<rparr>"
proof (induction post rule: rev_induct)
  case Nil
  have "buildTriggerHostMap (pre @ [t]) k = addTrigger (buildTriggerHostMap pre) t k"
    by (simp only: buildTriggerHostMap_snoc)
  then show ?case using Nil by (simp add: addTrigger_same)
next
  case (snoc x xs)
  have "buildTriggerHostMap ((pre @ t # xs) @ [x]) k = addTrigger (buildTriggerHostMap (pre @ t # xs)) x k"
    by (simp only: buildTriggerHostMap_snoc)
  then show ?case using snoc by (simp add: addTrigger_other)
qed

lemma listProblems_requests:
  "snd (listProblems triggerGet problems) = (if problems = [] then [] else [map objectid problems])"
  by (cases "triggerGet (map objectid problems)") (simp_all add: listProblems_def Let_def)

lemma listProblems_failed:
  "triggerGet (map objectid problems) = Inl err \<Longrightarrow>
     fst (listProblems triggerGet problems) = map (formatProblem Map.empty) problems"
  by (simp add: listProblems_def Let_def)

lemma listProblems_answered:
  "triggerGet (map objectid problems) = Inr triggers \<Longrightarrow>
     fst (listProblems triggerGet problems) = map (formatProblem (buildTriggerHostMap triggers)) problems"
  by (cases problems) (simp_all add: listProblems_def Let_def)

lemma listProblems_eventids:
  "map out_eventid (fst (listProblems triggerGet problems)) = map eventid problems"
  by (cases "triggerGet (map objectid problems)")
     (simp_all add: listProblems_def Let_def formatProblem_def comp_def)

text \<open>
  Claim C7, as the code has it.  The trigger identifiers of the fetched problems are collected one
  per problem, in order and with duplicates; one \<^verbatim>\<open>trigger.get\<close> request with that list
  is sent when there is at least one problem and none when there is no problem, never
  more.  Every fetched problem appears in the result, in order.  A problem gets the name
  of the first host of its trigger (the last trigger with hosts in the answer that has
  its identifier), or "Unknown" when that name is empty, when the lookup failed, or when
  no trigger with hosts was returned for it.
\<close>

theorem C7_problems_one_batched_lookup:
  "snd (listProblems triggerGet problems) = (if problems = [] then [] else [map objectid problems])
   \<and> length (snd (listProblems triggerGet problems)) \<le> 1
   \<and> map out_eventid (fst (listProblems triggerGet problems)) = map eventid problems
   \<and> (triggerGet (map objectid problems) = Inl err \<longrightarrow>
        fst (listProblems triggerGet problems) = map (formatProblem Map.empty) problems)
   \<and> (triggerGet (map objectid problems) = Inr triggers \<longrightarrow>
        fst (listProblems triggerGet problems) =
          map (formatProblem (buildTriggerHostMap triggers)) problems)
   \<and> out_eventid (formatProblem m p) = eventid p
   \<and> (m (objectid p) = None \<longrightarrow>
        out_hostname (formatProblem m p) = ''Unknown'' \<and> out_host (formatProblem m p) = ''Unknown'')
   \<and> (m (objectid p) = Some info \<longrightarrow>
        out_hostname (formatProblem m p) = info_hostname info \<and>
        out_host (formatProblem m p) = info_host info)
   \<and> ((\<forall>t \<in> set triggers. triggerid t = k \<longrightarrow> hosts t = []) \<longrightarrow>
        buildTriggerHostMap triggers k = None)
   \<and> (triggerid t = k \<and> hosts t = h # hs \<and> (\<forall>t' \<in> set post. triggerid t' = k \<longrightarrow> hosts t' = []) \<longrightarrow>
        buildTriggerHostMap (pre @ t # post) k =
          Some \<lparr> info_hostname = orUnknown (host_name h), info_host = orUnknown (host_host h) \<rparr>)"
proof -
  have requests: "length (snd (listProblems triggerGet problems)) \<le> 1"
    by (simp add: listProblems_requests)
  have format: "out_eventid (formatProblem m p) = eventid p"
    "m (objectid p) = None \<longrightarrow>
        out_hostname (formatProblem m p) = ''Unknown'' \<and> out_host (formatProblem m p) = ''Unknown''"
    "m (objectid p) = Some info \<longrightarrow>
        out_hostname (formatProblem m p) = info_hostname info \<and>
        out_host (formatProblem m p) = info_host info"
    by (simp_all add: formatProblem_def Let_def)
  from requests format listProblems_requests [of triggerGet problems]
    listProblems_eventids [of triggerGet problems]
    listProblems_failed [of triggerGet problems err]
    listProblems_answered [of triggerGet problems triggers]
    buildTriggerHostMap_no_host [of triggers k]
    buildTriggerHostMap_last [of t k h hs post pre]
  show ?thesis by simp
qed

lemma example_map:
  "buildTriggerHostMap [\<lparr> triggerid = ''13'',
            hosts = [\<lparr> host_host = ''web01'', host_name = ''Web server 1'' \<rparr>,
                     \<lparr> host_host = ''web02'', host_name = ''Web server 2'' \<rparr>] \<rparr>] ''13''
     = Some \<lparr> info_hostname = ''Web server 1'', info_host = ''web01'' \<rparr>"
  by (simp add: buildTriggerHostMap_def addTrigger_def orUnknown_def)

theorem C7_one_batched_lookup_witness:
  "snd (listProblems lookupAnswers [diskProblem, loadProblem]) = [[''13'', ''13'']]
   \<and> map out_eventid (fst (listProblems lookupAnswers [diskProblem, loadProblem])) = [''501'', ''502'']
   \<and> map out_hostname (fst (listProblems lookupAnswers [diskProblem, loadProblem]))
        = [''Web server 1'', ''Web server 1'']
   \<and> map out_hostname (fst (listProblems lookupFails [diskProblem, loadProblem]))
        = [''Unknown'', ''Unknown'']"
  using C7_problems_one_batched_lookup
      [where triggerGet = lookupAnswers and problems = "[diskProblem, loadProblem]"
         and triggers = "[\<lparr> triggerid = ''13'',
            hosts = [\<lparr> host_host = ''web01'', host_name = ''Web server 1'' \<rparr>,
                     \<lparr> host_host = ''web02'', host_name = ''Web server 2'' \<rparr>] \<rparr>]"]
    C7_problems_one_batched_lookup
      [where triggerGet = lookupFails and problems = "[diskProblem, loadProblem]"
         and err = "TransportError ''Zabbix API request failed: Bad Gateway''"]
  by (simp add: formatProblem_def example_map)

text \<open>
  The claim as stated fails without problems, when no lookup is sent, and with two
  problems of one trigger, when the identifiers sent are not distinct.
\<close>

theorem C7_lookup_counterexample:
  "length (snd (listProblems lookupAnswers [])) = 0
   \<and> snd (listProblems lookupAnswers [diskProblem, loadProblem]) = [[''13'', ''13'']]
   \<and> \<not> distinct [''13'', ''13'']"
  by (simp add: listProblems_requests)


end
